theory Spec2Isabelle
  imports Complex_Main "HOL-Library.Word"
begin

unbundle bit_operations_syntax

section \<open>Sculpt automasking: the model\<close>

text \<open>
  A shallow embedding of \<^verbatim>\<open>source/blender/editors/sculpt_paint/sculpt_automasking.c\<close>.
  Every function below carries the name of the C function it follows.
\<close>

subsection \<open>C floats\<close>

text \<open>
  A C \<^verbatim>\<open>float\<close> is idealised as an exact real number: rounding and overflow are left
  out. One value that is not a number is kept: \<open>None\<close> is the NaN that IEEE division gives
  for \<^verbatim>\<open>0.0f / 0.0f\<close>. NaN is absorbing for the arithmetic and every comparison with it is
  false. A division of a non-zero number by zero is an infinity in IEEE; under exact
  arithmetic the two float divisions of this file that can meet a zero divisor have a zero
  dividend there (lemmas \<open>cavity_zero_divisor\<close> and \<open>boundary_zero_divisor\<close>), so \<open>fdiv\<close>
  gives \<open>None\<close> for every zero divisor.
\<close>

type_synonym cfloat = "real option"

type_synonym float3 = "real \<times> real \<times> real"

definition fadd :: "cfloat \<Rightarrow> cfloat \<Rightarrow> cfloat" where
  "fadd a b = (case a of None \<Rightarrow> None | Some x \<Rightarrow> (case b of None \<Rightarrow> None | Some y \<Rightarrow> Some (x + y)))"

definition fsub :: "cfloat \<Rightarrow> cfloat \<Rightarrow> cfloat" where
  "fsub a b = (case a of None \<Rightarrow> None | Some x \<Rightarrow> (case b of None \<Rightarrow> None | Some y \<Rightarrow> Some (x - y)))"

definition fmul :: "cfloat \<Rightarrow> cfloat \<Rightarrow> cfloat" where
  "fmul a b = (case a of None \<Rightarrow> None | Some x \<Rightarrow> (case b of None \<Rightarrow> None | Some y \<Rightarrow> Some (x * y)))"

definition fdiv :: "cfloat \<Rightarrow> cfloat \<Rightarrow> cfloat" where
  "fdiv a b = (case a of None \<Rightarrow> None | Some x \<Rightarrow>
     (case b of None \<Rightarrow> None | Some y \<Rightarrow> if y = 0 then None else Some (x / y)))"

text \<open>
  Modelled from the spec: the helpers of \<^verbatim>\<open>BLI_math\<close> and \<^verbatim>\<open>BLI_utildefines.h\<close> are not
  under src. \<^verbatim>\<open>fabsf\<close> is the absolute value; \<^verbatim>\<open>signf(f)\<close> is
  \<^verbatim>\<open>(f < 0.0f) ? -1.0f : 1.0f\<close>; \<^verbatim>\<open>CLAMP(a, b, c)\<close> is
  \<^verbatim>\<open>if (a < b) a = b; else if (a > c) a = c;\<close>; \<^verbatim>\<open>pow2f(x)\<close> is \<^verbatim>\<open>x * x\<close>.
\<close>

definition fabsf :: "cfloat \<Rightarrow> cfloat" where
  "fabsf a = (case a of None \<Rightarrow> None | Some x \<Rightarrow> Some \<bar>x\<bar>)"

definition signf :: "cfloat \<Rightarrow> cfloat" where
  "signf a = (case a of None \<Rightarrow> Some 1 | Some x \<Rightarrow> if x < 0 then Some (- 1) else Some 1)"

definition CLAMP :: "cfloat \<Rightarrow> real \<Rightarrow> real \<Rightarrow> cfloat" where
  "CLAMP a b c = (case a of None \<Rightarrow> None
     | Some x \<Rightarrow> if x < b then Some b else if x > c then Some c else Some x)"

definition pow2f :: "cfloat \<Rightarrow> cfloat" where
  "pow2f x = fmul x x"

definition FLT_MAX :: real where
  "FLT_MAX = 340282346638528859811704183484516925440"

text \<open>Vectors of three floats. Mesh coordinates and normals are numbers, never NaN.\<close>

definition zero_v3 :: float3 where
  "zero_v3 = (0, 0, 0)"

fun add_v3_v3 :: "float3 \<Rightarrow> float3 \<Rightarrow> float3" where
  "add_v3_v3 (a0, a1, a2) (b0, b1, b2) = (a0 + b0, a1 + b1, a2 + b2)"

fun sub_v3_v3 :: "float3 \<Rightarrow> float3 \<Rightarrow> float3" where
  "sub_v3_v3 (a0, a1, a2) (b0, b1, b2) = (a0 - b0, a1 - b1, a2 - b2)"

fun mul_v3_fl :: "float3 \<Rightarrow> real \<Rightarrow> float3" where
  "mul_v3_fl (a0, a1, a2) f = (a0 * f, a1 * f, a2 * f)"

fun dot_v3v3 :: "float3 \<Rightarrow> float3 \<Rightarrow> real" where
  "dot_v3v3 (a0, a1, a2) (b0, b1, b2) = a0 * b0 + a1 * b1 + a2 * b2"

definition len_v3v3 :: "float3 \<Rightarrow> float3 \<Rightarrow> real" where
  "len_v3v3 a b = (let d = sub_v3_v3 b a in sqrt (dot_v3v3 d d))"

subsection \<open>Brush, scene settings and sculpt session\<close>

text \<open>
  Modelled from the spec: \<^verbatim>\<open>DNA_brush_types.h\<close> is not under src. The six flags of
  \<^verbatim>\<open>eAutomasking_flag\<close> are distinct single bits of the \<^verbatim>\<open>int\<close> flag word.
\<close>

definition BRUSH_AUTOMASKING_TOPOLOGY :: "32 word" where
  "BRUSH_AUTOMASKING_TOPOLOGY = 1"

definition BRUSH_AUTOMASKING_FACE_SETS :: "32 word" where
  "BRUSH_AUTOMASKING_FACE_SETS = 2"

definition BRUSH_AUTOMASKING_BOUNDARY_EDGES :: "32 word" where
  "BRUSH_AUTOMASKING_BOUNDARY_EDGES = 4"

definition BRUSH_AUTOMASKING_BOUNDARY_FACE_SETS :: "32 word" where
  "BRUSH_AUTOMASKING_BOUNDARY_FACE_SETS = 8"

definition BRUSH_AUTOMASKING_CAVITY :: "32 word" where
  "BRUSH_AUTOMASKING_CAVITY = 16"

definition BRUSH_AUTOMASKING_CAVITY_INVERT :: "32 word" where
  "BRUSH_AUTOMASKING_CAVITY_INVERT = 32"

datatype ePaintFalloffShape = PAINT_FALLOFF_SHAPE_SPHERE | PAINT_FALLOFF_SHAPE_TUBE

datatype eBrushSculptTool =
  SCULPT_TOOL_DRAW | SCULPT_TOOL_GRAB | SCULPT_TOOL_THUMB | SCULPT_TOOL_ROTATE | SCULPT_TOOL_SMOOTH

record Brush =
  automasking_flags :: "32 word"
  automasking_boundary_edges_propagation_steps :: int
  automasking_cavity_factor :: real
  falloff_shape :: ePaintFalloffShape
  sculpt_tool :: eBrushSculptTool

text \<open>\<open>sd_automasking_flags\<close> is \<^verbatim>\<open>sd->automasking_flags\<close>; \<open>paint_brush\<close> is
  \<^verbatim>\<open>BKE_paint_brush(&sd->paint)\<close>, which may be NULL.\<close>

record Sculpt =
  sd_automasking_flags :: "32 word"
  paint_brush :: "Brush option"

datatype PBVHType = PBVH_FACES | PBVH_GRIDS | PBVH_BMESH

record StrokeCache =
  radius :: real

text \<open>
  The sculpt session, with the mesh queries of \<^verbatim>\<open>sculpt.c\<close> (not under src) as fields:
  the code reads the mesh only through them. \<open>SCULPT_vertex_neighbors\<close> is the sequence
  that \<^verbatim>\<open>SCULPT_VERTEX_NEIGHBORS_ITER_BEGIN\<close> walks. \<open>SCULPT_floodfill_execute\<close> stands for
  the flood fill seeded by \<^verbatim>\<open>SCULPT_floodfill_add_active\<close>: given the callback's verdict
  for an edge, the sequence of \<open>(from_v, to_v)\<close> pairs the callback is called on.
  \<open>pmap\<close> tells whether \<^verbatim>\<open>ss->pmap\<close> is non-NULL, \<open>cache\<close> is \<^verbatim>\<open>ss->cache\<close>.
\<close>

record SculptSession =
  SCULPT_vertex_count_get :: nat
  SCULPT_vertex_co_get :: "nat \<Rightarrow> float3"
  SCULPT_vertex_normal_get :: "nat \<Rightarrow> float3"
  SCULPT_vertex_neighbors :: "nat \<Rightarrow> nat list"
  SCULPT_vertex_is_boundary :: "nat \<Rightarrow> bool"
  SCULPT_vertex_has_face_set :: "nat \<Rightarrow> int \<Rightarrow> bool"
  SCULPT_vertex_has_unique_face_set :: "nat \<Rightarrow> bool"
  SCULPT_active_face_set_get :: int
  SCULPT_active_vertex_co_get :: float3
  SCULPT_stroke_is_dynamic_topology :: "Brush \<Rightarrow> bool"
  SCULPT_is_vertex_inside_brush_radius_symm :: "float3 \<Rightarrow> float3 \<Rightarrow> real \<Rightarrow> bool"
  SCULPT_floodfill_execute :: "(nat \<Rightarrow> nat \<Rightarrow> bool) \<Rightarrow> (nat \<times> nat) list"
  pbvh_type :: PBVHType
  pmap :: bool
  cache :: "StrokeCache option"

record AutomaskingSettings =
  flags :: "32 word"
  initial_face_set :: int
  cavity_factor :: real

text \<open>\<open>factor\<close> is the per-vertex array: \<open>None\<close> is the NULL pointer.\<close>

record AutomaskingCache =
  settings :: AutomaskingSettings
  factor :: "cfloat list option"

text \<open>What a C call can end in besides a return.\<close>

datatype error = Null_Dereference

text \<open>
  How a strategy initializer returns: NULL after a failed \<^verbatim>\<open>BLI_assert_msg(0, msg)\<close>,
  NULL without an assertion, or the pointer to the factor array. The array itself is the
  caller's memory, so every initializer also returns its contents after the call.
\<close>

datatype init_return = Assert_NULL string | Return_NULL | Return_factor

subsection \<open>Which strategies are enabled\<close>

definition SCULPT_is_automasking_mode_enabled :: "Sculpt \<Rightarrow> Brush option \<Rightarrow> 32 word \<Rightarrow> bool" where
  "SCULPT_is_automasking_mode_enabled sd br mode =
     (case br of
        Some b \<Rightarrow> automasking_flags b AND mode \<noteq> 0 \<or> sd_automasking_flags sd AND mode \<noteq> 0
      | None \<Rightarrow> sd_automasking_flags sd AND mode \<noteq> 0)"

definition SCULPT_is_automasking_enabled :: "Sculpt \<Rightarrow> SculptSession \<Rightarrow> Brush option \<Rightarrow> bool" where
  "SCULPT_is_automasking_enabled sd ss br =
     (if (case br of Some b \<Rightarrow> SCULPT_stroke_is_dynamic_topology ss b | None \<Rightarrow> False) then False
      else if SCULPT_is_automasking_mode_enabled sd br BRUSH_AUTOMASKING_TOPOLOGY then True
      else if SCULPT_is_automasking_mode_enabled sd br BRUSH_AUTOMASKING_FACE_SETS then True
      else if SCULPT_is_automasking_mode_enabled sd br BRUSH_AUTOMASKING_BOUNDARY_EDGES then True
      else if SCULPT_is_automasking_mode_enabled sd br BRUSH_AUTOMASKING_BOUNDARY_FACE_SETS then True
      else if SCULPT_is_automasking_mode_enabled sd br BRUSH_AUTOMASKING_CAVITY then True
      else False)"

definition sculpt_automasking_mode_effective_bits :: "Sculpt \<Rightarrow> Brush option \<Rightarrow> 32 word" where
  "sculpt_automasking_mode_effective_bits sculpt brush =
     (case brush of
        Some b \<Rightarrow> sd_automasking_flags sculpt OR automasking_flags b
      | None \<Rightarrow> sd_automasking_flags sculpt)"

definition SCULPT_automasking_needs_factors_cache :: "Sculpt \<Rightarrow> Brush option \<Rightarrow> bool" where
  "SCULPT_automasking_needs_factors_cache sd brush =
     (let automasking_flags = sculpt_automasking_mode_effective_bits sd brush in
      if automasking_flags AND BRUSH_AUTOMASKING_TOPOLOGY \<noteq> 0 then True
      else if automasking_flags AND (BRUSH_AUTOMASKING_BOUNDARY_FACE_SETS OR
                BRUSH_AUTOMASKING_BOUNDARY_EDGES OR BRUSH_AUTOMASKING_CAVITY) \<noteq> 0
      then (case brush of
              Some b \<Rightarrow> automasking_boundary_edges_propagation_steps b \<noteq> 1
            | None \<Rightarrow> False)
      else False)"

subsection \<open>Cavity\<close>

text \<open>
  The neighbour loop accumulates \<open>(elen, e_num, avg)\<close>. Past the guard \<open>e_num\<close> is not
  zero, so \<^verbatim>\<open>1.0f / e_num\<close> and \<^verbatim>\<open>elen /= e_num\<close> are divisions of reals; the last division,
  by \<open>elen\<close>, is unguarded in the source and is \<open>fdiv\<close>.
\<close>

definition SCULPT_calc_cavity :: "SculptSession \<Rightarrow> nat \<Rightarrow> cfloat" where
  "SCULPT_calc_cavity ss vertex =
     (let co = SCULPT_vertex_co_get ss vertex;
          (elen, e_num, avg) =
             fold (\<lambda>ni (elen, e_num, avg).
                     let co2 = SCULPT_vertex_co_get ss ni
                     in (elen + len_v3v3 co co2, e_num + 1, add_v3_v3 avg co2))
                  (SCULPT_vertex_neighbors ss vertex) (0, 0 :: real, zero_v3)
      in if e_num = 0 then Some 0
         else let avg = mul_v3_fl avg (1 / e_num);
                  elen = elen / e_num;
                  no = SCULPT_vertex_normal_get ss vertex;
                  avg = sub_v3_v3 avg co
              in fdiv (Some (dot_v3v3 avg no)) (Some elen))"

definition sculpt_automasking_cavity_factor :: "AutomaskingCache \<Rightarrow> SculptSession \<Rightarrow> nat \<Rightarrow> cfloat" where
  "sculpt_automasking_cavity_factor automasking ss vert =
     (let factor = SCULPT_calc_cavity ss vert;
          sign = signf factor;
          factor = fmul (fmul (fabsf factor) (Some (cavity_factor (settings automasking)))) (Some 50);
          factor = fadd (fmul (fmul factor sign) (Some (1 / 2))) (Some (1 / 2));
          factor = CLAMP factor 0 1
      in if flags (settings automasking) AND BRUSH_AUTOMASKING_CAVITY_INVERT \<noteq> 0
         then fsub (Some 1) factor else factor)"

subsection \<open>The query\<close>

text \<open>\<open>vert\<close> is an index of the mesh: the source reads \<^verbatim>\<open>factor[vert]\<close> unchecked.\<close>

definition SCULPT_automasking_factor_get :: "AutomaskingCache option \<Rightarrow> SculptSession \<Rightarrow> nat \<Rightarrow> cfloat" where
  "SCULPT_automasking_factor_get automasking ss vert =
     (case automasking of
        None \<Rightarrow> Some 1
      | Some a \<Rightarrow>
         (case factor a of
            Some f \<Rightarrow> f ! vert
          | None \<Rightarrow>
             if flags (settings a) AND BRUSH_AUTOMASKING_FACE_SETS \<noteq> 0 \<and>
                \<not> SCULPT_vertex_has_face_set ss vert (initial_face_set (settings a)) then Some 0
             else if flags (settings a) AND BRUSH_AUTOMASKING_BOUNDARY_EDGES \<noteq> 0 \<and>
                SCULPT_vertex_is_boundary ss vert then Some 0
             else if flags (settings a) AND BRUSH_AUTOMASKING_BOUNDARY_FACE_SETS \<noteq> 0 \<and>
                \<not> SCULPT_vertex_has_unique_face_set ss vert then Some 0
             else if flags (settings a) AND BRUSH_AUTOMASKING_CAVITY \<noteq> 0
             then sculpt_automasking_cavity_factor a ss vert
             else Some 1))"

subsection \<open>Topology\<close>

definition sculpt_automasking_is_constrained_by_radius :: "Brush \<Rightarrow> bool" where
  "sculpt_automasking_is_constrained_by_radius br =
     (if falloff_shape br = PAINT_FALLOFF_SHAPE_TUBE then False
      else if sculpt_tool br \<in> {SCULPT_TOOL_GRAB, SCULPT_TOOL_THUMB, SCULPT_TOOL_ROTATE} then True
      else False)"

record AutomaskFloodFillData =
  fd_radius :: real
  fd_use_radius :: bool
  fd_location :: float3

text \<open>The callback writes the array (returned second) and tells whether to go on through
  \<open>to_v\<close> (returned first).\<close>

definition automask_floodfill_cb ::
    "SculptSession \<Rightarrow> AutomaskFloodFillData \<Rightarrow> cfloat list \<Rightarrow> nat \<Rightarrow> nat \<Rightarrow> bool \<times> cfloat list" where
  "automask_floodfill_cb ss data automask_factor from_v to_v =
     (let automask_factor = automask_factor[to_v := Some 1];
          automask_factor = automask_factor[from_v := Some 1]
      in (\<not> fd_use_radius data \<or>
            SCULPT_is_vertex_inside_brush_radius_symm ss
              (SCULPT_vertex_co_get ss to_v) (fd_location data) (fd_radius data),
          automask_factor))"

text \<open>
  \<^verbatim>\<open>ss->cache && sculpt_automasking_is_constrained_by_radius(brush)\<close> reads the brush only
  when there is a stroke cache; the brush is \<^verbatim>\<open>BKE_paint_brush(&sd->paint)\<close> and a NULL one
  is dereferenced there.
\<close>

definition SCULPT_topology_automasking_init ::
    "Sculpt \<Rightarrow> SculptSession \<Rightarrow> cfloat list \<Rightarrow> error + (init_return \<times> cfloat list)" where
  "SCULPT_topology_automasking_init sd ss automask_factor =
     (let brush = paint_brush sd in
      if pbvh_type ss = PBVH_FACES \<and> \<not> pmap ss
      then Inr (Assert_NULL ''Topology masking: pmap missing'', automask_factor)
      else
        let totvert = SCULPT_vertex_count_get ss;
            automask_factor = fold (\<lambda>i f. f[i := Some 0]) [0..<totvert] automask_factor;
            radius = (case cache ss of Some c \<Rightarrow> radius c | None \<Rightarrow> FLT_MAX)
        in case (case cache ss of
                   None \<Rightarrow> Inr False
                 | Some c \<Rightarrow> (case brush of
                       None \<Rightarrow> Inl Null_Dereference
                     | Some b \<Rightarrow> Inr (sculpt_automasking_is_constrained_by_radius b))) of
             Inl e \<Rightarrow> Inl e
           | Inr use_radius \<Rightarrow>
               let fdata = \<lparr>fd_radius = radius, fd_use_radius = use_radius,
                              fd_location = SCULPT_active_vertex_co_get ss\<rparr>;
                   visits = SCULPT_floodfill_execute ss
                              (\<lambda>from_v to_v. fst (automask_floodfill_cb ss fdata [] from_v to_v));
                   automask_factor =
                     fold (\<lambda>(from_v, to_v) f. snd (automask_floodfill_cb ss fdata f from_v to_v))
                          visits automask_factor
               in Inr (Return_factor, automask_factor))"

subsection \<open>Face sets\<close>

definition sculpt_face_sets_automasking_init ::
    "Sculpt \<Rightarrow> SculptSession \<Rightarrow> cfloat list \<Rightarrow> init_return \<times> cfloat list" where
  "sculpt_face_sets_automasking_init sd ss automask_factor =
     (let brush = paint_brush sd in
      if \<not> SCULPT_is_automasking_enabled sd ss brush then (Return_NULL, automask_factor)
      else if pbvh_type ss = PBVH_FACES \<and> \<not> pmap ss
      then (Assert_NULL ''Face Sets automasking: pmap missing'', automask_factor)
      else
        let tot_vert = SCULPT_vertex_count_get ss;
            active_face_set = SCULPT_active_face_set_get ss
        in (Return_factor,
            fold (\<lambda>i f. if \<not> SCULPT_vertex_has_face_set ss i active_face_set
                         then f[i := fmul (f ! i) (Some 0)] else f)
                 [0..<tot_vert] automask_factor))"

subsection \<open>Cavity over the whole mesh, with blur\<close>

text \<open>The loop \<^verbatim>\<open>factor[i] *= sculpt_automasking_cavity_factor(automasking, ss, i)\<close>.\<close>

definition cavity_multiply :: "AutomaskingCache \<Rightarrow> SculptSession \<Rightarrow> cfloat list \<Rightarrow> cfloat list" where
  "cavity_multiply automasking ss factor' =
     fold (\<lambda>i f. f[i := fmul (f ! i) (sculpt_automasking_cavity_factor automasking ss i)])
          [0..<SCULPT_vertex_count_get ss] factor'"

text \<open>
  The body of one blur iteration after the \<^verbatim>\<open>SWAP\<close>: the inner loop over the vertices. It
  reads the neighbours in \<open>scratch\<close> and reads and writes \<open>factor[i]\<close>.
\<close>

definition blur_vertex :: "SculptSession \<Rightarrow> cfloat list \<Rightarrow> cfloat list \<Rightarrow> nat \<Rightarrow> cfloat list" where
  "blur_vertex ss scratch factor' i =
     (let (sum, tot) = fold (\<lambda>ni (sum, tot). (fadd sum (scratch ! ni), tot + 1))
                            (SCULPT_vertex_neighbors ss i) (Some 0, 0 :: nat);
          sum = (if tot \<noteq> 0 then fdiv sum (Some (real tot)) else sum)
      in factor'[i := fmul (fadd sum (factor' ! i)) (Some (1 / 2))])"

definition blur_pass :: "SculptSession \<Rightarrow> cfloat list \<Rightarrow> cfloat list \<Rightarrow> cfloat list" where
  "blur_pass ss scratch factor' =
     fold (\<lambda>i f. blur_vertex ss scratch f i) [0..<SCULPT_vertex_count_get ss] factor'"

text \<open>The blur loop on the pair of buffers \<open>(factor, scratch)\<close>; each iteration first swaps
  the two pointers.\<close>

definition cavity_blur :: "SculptSession \<Rightarrow> int \<Rightarrow> cfloat list \<times> cfloat list \<Rightarrow> cfloat list \<times> cfloat list" where
  "cavity_blur ss boundary_propagation_steps bufs =
     fold (\<lambda>iteration (factor, scratch).
             let (factor, scratch) = (scratch, factor)
             in (blur_pass ss scratch factor, scratch))
          [0..<nat (boundary_propagation_steps - 1)] bufs"

text \<open>
  With \<open>boundary_propagation_steps > 1\<close> the work is done in two fresh buffers and
  multiplied into the caller's array at the end; otherwise \<open>factor\<close> is the caller's array
  itself and the blur loop does not run.
\<close>

definition sculpt_cavity_automasking_init ::
    "Sculpt \<Rightarrow> SculptSession \<Rightarrow> AutomaskingCache \<Rightarrow> cfloat list \<Rightarrow> int \<Rightarrow> init_return \<times> cfloat list" where
  "sculpt_cavity_automasking_init sd ss automasking automask_factor boundary_propagation_steps =
     (let brush = paint_brush sd in
      if \<not> SCULPT_is_automasking_enabled sd ss brush then (Return_NULL, automask_factor)
      else if pbvh_type ss = PBVH_FACES \<and> \<not> pmap ss
      then (Assert_NULL ''Cavity mask automasking: pmap missing'', automask_factor)
      else
        let tot_vert = SCULPT_vertex_count_get ss in
        if boundary_propagation_steps > 1
        then
          let factor = replicate tot_vert (Some 1);
              scratch = replicate tot_vert (Some 1);
              factor = cavity_multiply automasking ss factor;
              (factor, scratch) = cavity_blur ss boundary_propagation_steps (factor, scratch)
          in (Return_factor,
              fold (\<lambda>i f. f[i := fmul (f ! i) (factor ! i)]) [0..<tot_vert] automask_factor)
        else (Return_factor, cavity_multiply automasking ss automask_factor))"

subsection \<open>Boundary distance field\<close>

definition EDGE_DISTANCE_INF :: int where
  "EDGE_DISTANCE_INF = - 1"

datatype eBoundaryAutomaskMode = AUTOMASK_INIT_BOUNDARY_EDGES | AUTOMASK_INIT_BOUNDARY_FACE_SETS

text \<open>The first loop: every entry is set to INF, then to 0 at a seed of the mode.\<close>

definition edge_distance_seed :: "SculptSession \<Rightarrow> eBoundaryAutomaskMode \<Rightarrow> int list \<Rightarrow> int list" where
  "edge_distance_seed ss mode edge_distance =
     fold (\<lambda>i ed.
             let ed = ed[i := EDGE_DISTANCE_INF]
             in (case mode of
                   AUTOMASK_INIT_BOUNDARY_EDGES \<Rightarrow>
                     if SCULPT_vertex_is_boundary ss i then ed[i := 0] else ed
                 | AUTOMASK_INIT_BOUNDARY_FACE_SETS \<Rightarrow>
                     if \<not> SCULPT_vertex_has_unique_face_set ss i then ed[i := 0] else ed))
          [0..<SCULPT_vertex_count_get ss] edge_distance"

text \<open>The second loop, in place on \<open>edge_distance\<close>: one vertex, one pass over the
  vertices, and the outer loop over \<open>propagation_it\<close>.\<close>

definition propagate_vertex :: "SculptSession \<Rightarrow> int \<Rightarrow> int list \<Rightarrow> nat \<Rightarrow> int list" where
  "propagate_vertex ss propagation_it edge_distance i =
     (if edge_distance ! i \<noteq> EDGE_DISTANCE_INF then edge_distance
      else fold (\<lambda>ni ed. if ed ! ni = propagation_it then ed[i := propagation_it + 1] else ed)
                (SCULPT_vertex_neighbors ss i) edge_distance)"

definition propagate_pass :: "SculptSession \<Rightarrow> int \<Rightarrow> int list \<Rightarrow> int list" where
  "propagate_pass ss propagation_it edge_distance =
     fold (\<lambda>i ed. propagate_vertex ss propagation_it ed i)
          [0..<SCULPT_vertex_count_get ss] edge_distance"

definition propagate :: "SculptSession \<Rightarrow> int \<Rightarrow> int list \<Rightarrow> int list" where
  "propagate ss propagation_steps edge_distance =
     fold (\<lambda>propagation_it ed. propagate_pass ss (int propagation_it) ed)
          [0..<nat propagation_steps] edge_distance"

text \<open>The third loop: the falloff multiplied into the factor of every reached vertex.
  \<open>boundary_falloff d propagation_steps\<close> is the multiplier
  \<^verbatim>\<open>1.0f - edge_boundary_automask\<close> of a vertex with \<^verbatim>\<open>edge_distance[i] = d\<close>.\<close>

definition boundary_falloff :: "int \<Rightarrow> int \<Rightarrow> cfloat" where
  "boundary_falloff d propagation_steps =
     (let p = fsub (Some 1) (fdiv (Some (real_of_int d)) (Some (real_of_int propagation_steps)));
          edge_boundary_automask = pow2f p
      in fsub (Some 1) edge_boundary_automask)"

definition boundary_apply :: "SculptSession \<Rightarrow> int \<Rightarrow> int list \<Rightarrow> cfloat list \<Rightarrow> cfloat list" where
  "boundary_apply ss propagation_steps edge_distance automask_factor =
     fold (\<lambda>i f. if edge_distance ! i = EDGE_DISTANCE_INF then f
                  else f[i := fmul (f ! i) (boundary_falloff (edge_distance ! i) propagation_steps)])
          [0..<SCULPT_vertex_count_get ss] automask_factor"

text \<open>\<open>boundary_edge_distance\<close> is the array \<open>edge_distance\<close> as the third loop finds it
  (\<^verbatim>\<open>MEM_callocN\<close> gives zeros).\<close>

definition boundary_edge_distance :: "SculptSession \<Rightarrow> eBoundaryAutomaskMode \<Rightarrow> int \<Rightarrow> int list" where
  "boundary_edge_distance ss mode propagation_steps =
     propagate ss propagation_steps
       (edge_distance_seed ss mode (replicate (SCULPT_vertex_count_get ss) 0))"

definition SCULPT_boundary_automasking_init ::
    "SculptSession \<Rightarrow> eBoundaryAutomaskMode \<Rightarrow> int \<Rightarrow> cfloat list \<Rightarrow> init_return \<times> cfloat list" where
  "SCULPT_boundary_automasking_init ss mode propagation_steps automask_factor =
     (if \<not> pmap ss then (Assert_NULL ''Boundary Edges masking: pmap missing'', automask_factor)
      else
        let edge_distance = boundary_edge_distance ss mode propagation_steps
        in (Return_factor, boundary_apply ss propagation_steps edge_distance automask_factor))"

subsection \<open>The cache\<close>

text \<open>\<^verbatim>\<open>brush->automasking_cavity_factor\<close> is read with no test of \<open>brush\<close>.\<close>

definition SCULPT_automasking_cache_settings_update ::
    "SculptSession \<Rightarrow> Sculpt \<Rightarrow> Brush option \<Rightarrow> error + AutomaskingSettings" where
  "SCULPT_automasking_cache_settings_update ss sd brush =
     (let flags' = sculpt_automasking_mode_effective_bits sd brush;
          initial_face_set' = SCULPT_active_face_set_get ss
      in case brush of
           None \<Rightarrow> Inl Null_Dereference
         | Some b \<Rightarrow> Inr \<lparr>flags = flags', initial_face_set = initial_face_set',
                          cavity_factor = automasking_cavity_factor b\<rparr>)"

text \<open>
  \<open>Inr None\<close> is the NULL cache. \<^verbatim>\<open>SCULPT_boundary_info_ensure\<close> and
  \<^verbatim>\<open>SCULPT_vertex_random_access_ensure\<close> build lookup tables of the session and change
  nothing that is read here. The values the initializers return are dropped by the source.
\<close>

definition SCULPT_automasking_cache_init ::
    "Sculpt \<Rightarrow> Brush option \<Rightarrow> SculptSession \<Rightarrow> error + AutomaskingCache option" where
  "SCULPT_automasking_cache_init sd brush ss =
     (let totvert = SCULPT_vertex_count_get ss in
      if \<not> SCULPT_is_automasking_enabled sd ss brush then Inr None
      else (case SCULPT_automasking_cache_settings_update ss sd brush of
        Inl e \<Rightarrow> Inl e
      | Inr st \<Rightarrow>
         (let automasking = \<lparr>settings = st, factor = None\<rparr> in
          if \<not> SCULPT_automasking_needs_factors_cache sd brush then Inr (Some automasking)
          else
            (let f = replicate totvert (Some 1);
                 boundary_propagation_steps =
                   (case brush of
                      Some b \<Rightarrow> automasking_boundary_edges_propagation_steps b
                    | None \<Rightarrow> 1)
             in (case (if SCULPT_is_automasking_mode_enabled sd brush BRUSH_AUTOMASKING_TOPOLOGY
                       then map_sum id snd (SCULPT_topology_automasking_init sd ss f)
                       else Inr f) of
                  Inl e \<Rightarrow> Inl e
                | Inr f \<Rightarrow>
                   (let f = (if SCULPT_is_automasking_mode_enabled sd brush BRUSH_AUTOMASKING_FACE_SETS
                             then snd (sculpt_face_sets_automasking_init sd ss f) else f);
                        f = (if SCULPT_is_automasking_mode_enabled sd brush BRUSH_AUTOMASKING_CAVITY
                             then snd (sculpt_cavity_automasking_init sd ss automasking f
                                         boundary_propagation_steps)
                             else f);
                        f = (if SCULPT_is_automasking_mode_enabled sd brush
                                  BRUSH_AUTOMASKING_BOUNDARY_EDGES
                             then snd (SCULPT_boundary_automasking_init ss
                                         AUTOMASK_INIT_BOUNDARY_EDGES boundary_propagation_steps f)
                             else f);
                        f = (if SCULPT_is_automasking_mode_enabled sd brush
                                  BRUSH_AUTOMASKING_BOUNDARY_FACE_SETS
                             then snd (SCULPT_boundary_automasking_init ss
                                         AUTOMASK_INIT_BOUNDARY_FACE_SETS boundary_propagation_steps f)
                             else f)
                    in Inr (Some (automasking\<lparr>factor := Some f\<rparr>))))))))"

section \<open>What the specification says, in its own words\<close>

subsection \<open>The range of a factor\<close>

text \<open>A factor lies in [0.0, 1.0]: it is a number, not NaN, between 0 and 1.\<close>

definition in_unit_range :: "cfloat \<Rightarrow> bool" where
  "in_unit_range x = (case x of None \<Rightarrow> False | Some r \<Rightarrow> 0 \<le> r \<and> r \<le> 1)"

text \<open>A factor array of \<open>n\<close> entries, each in [0.0, 1.0].\<close>

definition factors_in_range :: "nat \<Rightarrow> cfloat list \<Rightarrow> bool" where
  "factors_in_range n f = (length f = n \<and> list_all in_unit_range f)"

subsection \<open>Hop distance to the seed set\<close>

text \<open>The seeds of a boundary mode (step 2 of the distance field).\<close>

definition boundary_seed :: "SculptSession \<Rightarrow> eBoundaryAutomaskMode \<Rightarrow> nat \<Rightarrow> bool" where
  "boundary_seed ss mode v =
     (case mode of
        AUTOMASK_INIT_BOUNDARY_EDGES \<Rightarrow> SCULPT_vertex_is_boundary ss v
      | AUTOMASK_INIT_BOUNDARY_FACE_SETS \<Rightarrow> \<not> SCULPT_vertex_has_unique_face_set ss v)"

text \<open>\<open>hops ss seed k v\<close>: a path of exactly \<open>k\<close> edges leads from \<open>v\<close>, neighbour by
  neighbour, to a seed.\<close>

fun hops :: "SculptSession \<Rightarrow> (nat \<Rightarrow> bool) \<Rightarrow> nat \<Rightarrow> nat \<Rightarrow> bool" where
  "hops ss seed 0 v = seed v"
| "hops ss seed (Suc k) v = (\<exists>u \<in> set (SCULPT_vertex_neighbors ss v). hops ss seed k u)"

text \<open>\<open>hop_distance ss seed n v\<close>: the graph distance from \<open>v\<close> to the seed set when it is
  at most \<open>n\<close>, that is the least \<open>k \<le> n\<close> with \<open>hops ss seed k v\<close>; \<open>None\<close> when there is
  none.\<close>

fun hop_distance :: "SculptSession \<Rightarrow> (nat \<Rightarrow> bool) \<Rightarrow> nat \<Rightarrow> nat \<Rightarrow> nat option" where
  "hop_distance ss seed 0 v = (if seed v then Some 0 else None)"
| "hop_distance ss seed (Suc n) v =
     (case hop_distance ss seed n v of
        Some d \<Rightarrow> Some d
      | None \<Rightarrow> if hops ss seed (Suc n) v then Some (Suc n) else None)"

text \<open>One pass of a level-synchronous search, every read taken from the snapshot
  \<open>edge_distance\<close> of the pass's start.\<close>

definition snapshot_pass :: "SculptSession \<Rightarrow> int \<Rightarrow> int list \<Rightarrow> int list" where
  "snapshot_pass ss propagation_it edge_distance =
     map (\<lambda>i. if edge_distance ! i = EDGE_DISTANCE_INF \<and>
                  (\<exists>ni \<in> set (SCULPT_vertex_neighbors ss i). edge_distance ! ni = propagation_it)
               then propagation_it + 1 else edge_distance ! i)
         [0..<SCULPT_vertex_count_get ss]"

subsection \<open>The cavity estimate\<close>

definition mean_neighbor_position :: "SculptSession \<Rightarrow> nat \<Rightarrow> float3" where
  "mean_neighbor_position ss v =
     (let ns = SCULPT_vertex_neighbors ss v;
          n = real (length ns)
      in ((\<Sum>u\<leftarrow>ns. fst (SCULPT_vertex_co_get ss u)) / n,
          (\<Sum>u\<leftarrow>ns. fst (snd (SCULPT_vertex_co_get ss u))) / n,
          (\<Sum>u\<leftarrow>ns. snd (snd (SCULPT_vertex_co_get ss u))) / n))"

definition mean_edge_length :: "SculptSession \<Rightarrow> nat \<Rightarrow> real" where
  "mean_edge_length ss v =
     (\<Sum>u\<leftarrow>SCULPT_vertex_neighbors ss v.
         len_v3v3 (SCULPT_vertex_co_get ss v) (SCULPT_vertex_co_get ss u))
       / real (length (SCULPT_vertex_neighbors ss v))"

definition cavity_spec :: "SculptSession \<Rightarrow> nat \<Rightarrow> cfloat" where
  "cavity_spec ss v =
     (if SCULPT_vertex_neighbors ss v = [] then Some 0
      else fdiv (Some (dot_v3v3 (sub_v3_v3 (mean_neighbor_position ss v) (SCULPT_vertex_co_get ss v))
                                (SCULPT_vertex_normal_get ss v)))
                (Some (mean_edge_length ss v)))"

subsection \<open>One round of the cavity blur\<close>

text \<open>The round as the specification describes it: the mean of the neighbours' values of
  the previous round (0 when there is no neighbour) plus the vertex's own value of the
  previous round, halved.\<close>

definition neighbor_mean :: "SculptSession \<Rightarrow> cfloat list \<Rightarrow> nat \<Rightarrow> cfloat" where
  "neighbor_mean ss prev v =
     (let ns = SCULPT_vertex_neighbors ss v
      in if ns = [] then Some 0
         else fdiv (fold (\<lambda>u s. fadd s (prev ! u)) ns (Some 0)) (Some (real (length ns))))"

definition blur_round_spec :: "SculptSession \<Rightarrow> cfloat list \<Rightarrow> cfloat list" where
  "blur_round_spec ss prev =
     map (\<lambda>v. fmul (fadd (neighbor_mean ss prev v) (prev ! v)) (Some (1 / 2)))
         [0..<SCULPT_vertex_count_get ss]"

section \<open>Example scenes\<close>

text \<open>A chain of five vertices 0-1-2-3-4 on the x axis, one unit apart; the two ends are
  boundary vertices; every vertex lies in face set 3 only.\<close>

definition mesh_chain5 :: SculptSession where
  "mesh_chain5 =
     \<lparr>SCULPT_vertex_count_get = 5,
      SCULPT_vertex_co_get = (\<lambda>i. (real i, 0, 0)),
      SCULPT_vertex_normal_get = (\<lambda>i. (0, 0, 1)),
      SCULPT_vertex_neighbors =
        (\<lambda>i. if i = 0 then [1] else if i = 1 then [0, 2] else if i = 2 then [1, 3]
             else if i = 3 then [2, 4] else if i = 4 then [3] else []),
      SCULPT_vertex_is_boundary = (\<lambda>i. i = 0 \<or> i = 4),
      SCULPT_vertex_has_face_set = (\<lambda>i fs. fs = 3),
      SCULPT_vertex_has_unique_face_set = (\<lambda>i. True),
      SCULPT_active_face_set_get = 3,
      SCULPT_active_vertex_co_get = (0, 0, 0),
      SCULPT_stroke_is_dynamic_topology = (\<lambda>b. False),
      SCULPT_is_vertex_inside_brush_radius_symm = (\<lambda>co location r. True),
      SCULPT_floodfill_execute = (\<lambda>cb. [(0, 1), (1, 2), (2, 3), (3, 4)]),
      pbvh_type = PBVH_FACES,
      pmap = True,
      cache = None\<rparr>"

text \<open>A single vertex with no neighbour.\<close>

definition mesh_single :: SculptSession where
  "mesh_single =
     \<lparr>SCULPT_vertex_count_get = 1,
      SCULPT_vertex_co_get = (\<lambda>i. (0, 0, 0)),
      SCULPT_vertex_normal_get = (\<lambda>i. (0, 0, 1)),
      SCULPT_vertex_neighbors = (\<lambda>i. []),
      SCULPT_vertex_is_boundary = (\<lambda>i. False),
      SCULPT_vertex_has_face_set = (\<lambda>i fs. fs = 3),
      SCULPT_vertex_has_unique_face_set = (\<lambda>i. True),
      SCULPT_active_face_set_get = 3,
      SCULPT_active_vertex_co_get = (0, 0, 0),
      SCULPT_stroke_is_dynamic_topology = (\<lambda>b. False),
      SCULPT_is_vertex_inside_brush_radius_symm = (\<lambda>co location r. True),
      SCULPT_floodfill_execute = (\<lambda>cb. []),
      pbvh_type = PBVH_FACES,
      pmap = True,
      cache = None\<rparr>"

text \<open>Two vertices at the same place, joined by an edge (a zero-length edge, as doubled
  vertices leave it).\<close>

definition mesh_doubled :: SculptSession where
  "mesh_doubled =
     \<lparr>SCULPT_vertex_count_get = 2,
      SCULPT_vertex_co_get = (\<lambda>i. (0, 0, 0)),
      SCULPT_vertex_normal_get = (\<lambda>i. (0, 0, 1)),
      SCULPT_vertex_neighbors = (\<lambda>i. if i = 0 then [1] else if i = 1 then [0] else []),
      SCULPT_vertex_is_boundary = (\<lambda>i. False),
      SCULPT_vertex_has_face_set = (\<lambda>i fs. fs = 3),
      SCULPT_vertex_has_unique_face_set = (\<lambda>i. True),
      SCULPT_active_face_set_get = 3,
      SCULPT_active_vertex_co_get = (0, 0, 0),
      SCULPT_stroke_is_dynamic_topology = (\<lambda>b. False),
      SCULPT_is_vertex_inside_brush_radius_symm = (\<lambda>co location r. True),
      SCULPT_floodfill_execute = (\<lambda>cb. [(0, 1)]),
      pbvh_type = PBVH_FACES,
      pmap = True,
      cache = None\<rparr>"

text \<open>A brush with the given flags and propagation steps, and cavity factor 1; scene
  settings with the given flags.\<close>

definition example_brush :: "32 word \<Rightarrow> int \<Rightarrow> Brush" where
  "example_brush fl n =
     \<lparr>automasking_flags = fl,
      automasking_boundary_edges_propagation_steps = n,
      automasking_cavity_factor = 1,
      falloff_shape = PAINT_FALLOFF_SHAPE_SPHERE,
      sculpt_tool = SCULPT_TOOL_DRAW\<rparr>"

definition example_sculpt :: "32 word \<Rightarrow> Brush option \<Rightarrow> Sculpt" where
  "example_sculpt fl br = \<lparr>sd_automasking_flags = fl, paint_brush = br\<rparr>"

text \<open>A cache without a factor array, with the given flags and initial face set, and
  cavity factor 1.\<close>

definition example_cache :: "32 word \<Rightarrow> int \<Rightarrow> AutomaskingCache" where
  "example_cache fl fs =
     \<lparr>settings = \<lparr>flags = fl, initial_face_set = fs, cavity_factor = 1\<rparr>, factor = None\<rparr>"

section \<open>Properties\<close>

subsection \<open>Flags\<close>

lemma flag_simps:
  "BRUSH_AUTOMASKING_TOPOLOGY = 1" "BRUSH_AUTOMASKING_FACE_SETS = 2"
  "BRUSH_AUTOMASKING_BOUNDARY_EDGES = 4" "BRUSH_AUTOMASKING_BOUNDARY_FACE_SETS = 8"
  "BRUSH_AUTOMASKING_CAVITY = 16" "BRUSH_AUTOMASKING_CAVITY_INVERT = 32"
  by (simp_all add: BRUSH_AUTOMASKING_TOPOLOGY_def BRUSH_AUTOMASKING_FACE_SETS_def
      BRUSH_AUTOMASKING_BOUNDARY_EDGES_def BRUSH_AUTOMASKING_BOUNDARY_FACE_SETS_def
      BRUSH_AUTOMASKING_CAVITY_def BRUSH_AUTOMASKING_CAVITY_INVERT_def)

lemmas example_defs = example_sculpt_def example_brush_def example_cache_def

lemmas enabled_defs = SCULPT_is_automasking_enabled_def SCULPT_is_automasking_mode_enabled_def
  sculpt_automasking_mode_effective_bits_def SCULPT_automasking_needs_factors_cache_def

lemma or_and_ne0: "((x::32 word) OR y) AND m \<noteq> 0 \<longleftrightarrow> x AND m \<noteq> 0 \<or> y AND m \<noteq> 0"
  by (simp add: bit.conj_disj_distrib2 or_eq_0_iff)

lemma and_or_ne0: "(x::32 word) AND (m OR n) \<noteq> 0 \<longleftrightarrow> x AND m \<noteq> 0 \<or> x AND n \<noteq> 0"
  by (simp add: bit.conj_disj_distrib or_eq_0_iff)

text \<open>A mode is enabled exactly when its bit is set in the effective flags.\<close>

lemma effective_bits_mode:
  "sculpt_automasking_mode_effective_bits sd br AND mode \<noteq> 0
     \<longleftrightarrow> SCULPT_is_automasking_mode_enabled sd br mode"
  by (cases br) (auto simp: sculpt_automasking_mode_effective_bits_def
      SCULPT_is_automasking_mode_enabled_def or_and_ne0)

lemma needs_factors_cache_iff:
  "SCULPT_automasking_needs_factors_cache sd br \<longleftrightarrow>
     SCULPT_is_automasking_mode_enabled sd br BRUSH_AUTOMASKING_TOPOLOGY \<or>
     ((SCULPT_is_automasking_mode_enabled sd br BRUSH_AUTOMASKING_BOUNDARY_FACE_SETS \<or>
       SCULPT_is_automasking_mode_enabled sd br BRUSH_AUTOMASKING_BOUNDARY_EDGES \<or>
       SCULPT_is_automasking_mode_enabled sd br BRUSH_AUTOMASKING_CAVITY) \<and>
      (case br of Some b \<Rightarrow> automasking_boundary_edges_propagation_steps b \<noteq> 1 | None \<Rightarrow> False))"
  unfolding SCULPT_automasking_needs_factors_cache_def Let_def and_or_ne0 effective_bits_mode
  by auto

lemma cache_init_factor_None:
  assumes "SCULPT_automasking_cache_init sd (Some b) ss = Inr (Some c)"
  shows "factor c = None \<longleftrightarrow> \<not> SCULPT_automasking_needs_factors_cache sd (Some b)"
  using assms
  by (auto simp: SCULPT_automasking_cache_init_def Let_def
      SCULPT_automasking_cache_settings_update_def split: if_splits sum.splits)

subsection \<open>C2: the dispatch of the query\<close>

text \<open>
  C2. \<^verbatim>\<open>SCULPT_automasking_factor_get\<close>: a NULL cache gives 1.0; a cache with a factor
  array gives \<^verbatim>\<open>factor[vert]\<close>; otherwise the tests of FaceSets, BoundaryEdges and
  BoundaryFaceSets are made in this order and the first that fails gives 0.0; when none
  fails, an enabled Cavity gives the cavity strategy value as it is, and the result is 1.0
  when Cavity is not enabled.
\<close>

theorem factor_get_dispatch:
  "SCULPT_automasking_factor_get None ss v = Some 1 \<and>
   (factor a = Some f \<longrightarrow> SCULPT_automasking_factor_get (Some a) ss v = f ! v) \<and>
   (factor a = None \<longrightarrow>
     (let fl = flags (settings a);
          face_sets_fails = (fl AND BRUSH_AUTOMASKING_FACE_SETS \<noteq> 0 \<and>
             \<not> SCULPT_vertex_has_face_set ss v (initial_face_set (settings a)));
          boundary_edges_fails = (fl AND BRUSH_AUTOMASKING_BOUNDARY_EDGES \<noteq> 0 \<and>
             SCULPT_vertex_is_boundary ss v);
          boundary_face_sets_fails = (fl AND BRUSH_AUTOMASKING_BOUNDARY_FACE_SETS \<noteq> 0 \<and>
             \<not> SCULPT_vertex_has_unique_face_set ss v);
          r = SCULPT_automasking_factor_get (Some a) ss v
      in (face_sets_fails \<longrightarrow> r = Some 0) \<and>
         (\<not> face_sets_fails \<and> boundary_edges_fails \<longrightarrow> r = Some 0) \<and>
         (\<not> face_sets_fails \<and> \<not> boundary_edges_fails \<and> boundary_face_sets_fails \<longrightarrow> r = Some 0) \<and>
         (\<not> face_sets_fails \<and> \<not> boundary_edges_fails \<and> \<not> boundary_face_sets_fails \<longrightarrow>
            r = (if fl AND BRUSH_AUTOMASKING_CAVITY \<noteq> 0
                 then sculpt_automasking_cavity_factor a ss v else Some 1))))"
  by (simp add: SCULPT_automasking_factor_get_def Let_def)

theorem factor_get_dispatch_witness:
  "factor (example_cache 2 7) = None \<and>
   SCULPT_automasking_factor_get (Some (example_cache 2 7)) mesh_chain5 1 = Some 0 \<and>
   SCULPT_automasking_factor_get (Some (example_cache 2 3)) mesh_chain5 1 = Some 1 \<and>
   SCULPT_automasking_factor_get (Some (example_cache 4 3)) mesh_chain5 0 = Some 0 \<and>
   SCULPT_automasking_factor_get (Some ((example_cache 4 3)\<lparr>factor := Some [Some (1 / 4)]\<rparr>))
      mesh_chain5 0 = Some (1 / 4)"
  using factor_get_dispatch [of mesh_chain5 1 "example_cache 2 7" "[]"]
    factor_get_dispatch [of mesh_chain5 1 "example_cache 2 3" "[]"]
    factor_get_dispatch [of mesh_chain5 0 "example_cache 4 3" "[]"]
    factor_get_dispatch [of mesh_chain5 0 "(example_cache 4 3)\<lparr>factor := Some [Some (1 / 4)]\<rparr>"
       "[Some (1 / 4)]"]
  by (simp add: example_defs mesh_chain5_def flag_simps Let_def)

subsection \<open>C3: when the factor array is allocated\<close>

text \<open>
  C3, as stated: the factor array is allocated when any enabled strategy is combined with
  \<open>boundary_propagation_steps \<noteq> 1\<close>. It is not: with FaceSets alone and two propagation
  steps \<^verbatim>\<open>SCULPT_automasking_cache_init\<close> returns a cache whose factor array is NULL.
\<close>

theorem face_sets_steps2_no_array:
  "SCULPT_is_automasking_mode_enabled (example_sculpt 2 None) (Some (example_brush 0 2))
      BRUSH_AUTOMASKING_FACE_SETS \<and>
   automasking_boundary_edges_propagation_steps (example_brush 0 2) \<noteq> 1 \<and>
   SCULPT_automasking_cache_init (example_sculpt 2 None) (Some (example_brush 0 2)) mesh_chain5
     = Inr (Some \<lparr>settings = \<lparr>flags = 2, initial_face_set = 3, cavity_factor = 1\<rparr>,
                  factor = None\<rparr>)"
  by (simp add: SCULPT_automasking_cache_init_def enabled_defs
      SCULPT_automasking_cache_settings_update_def example_defs mesh_chain5_def flag_simps)

text \<open>
  C3, amended. A cache returned by \<^verbatim>\<open>SCULPT_automasking_cache_init\<close> has a factor array
  exactly when Topology is enabled, or when one of BoundaryEdges, BoundaryFaceSets and
  Cavity is enabled and the brush's \<open>boundary_propagation_steps\<close> is not 1. FaceSets alone
  never allocates the array. (A cache is returned only for a brush that is not NULL.)
\<close>

theorem factor_array_allocated_iff:
  assumes "SCULPT_automasking_cache_init sd (Some b) ss = Inr (Some c)"
  shows "factor c \<noteq> None \<longleftrightarrow>
     SCULPT_is_automasking_mode_enabled sd (Some b) BRUSH_AUTOMASKING_TOPOLOGY \<or>
     ((SCULPT_is_automasking_mode_enabled sd (Some b) BRUSH_AUTOMASKING_BOUNDARY_EDGES \<or>
       SCULPT_is_automasking_mode_enabled sd (Some b) BRUSH_AUTOMASKING_BOUNDARY_FACE_SETS \<or>
       SCULPT_is_automasking_mode_enabled sd (Some b) BRUSH_AUTOMASKING_CAVITY) \<and>
      automasking_boundary_edges_propagation_steps b \<noteq> 1)"
  using cache_init_factor_None [OF assms] needs_factors_cache_iff [of sd "Some b"]
  by auto

theorem factor_array_allocated_iff_witness:
  "SCULPT_automasking_cache_init (example_sculpt 1 None) (Some (example_brush 0 1)) mesh_single
     = Inr (Some \<lparr>settings = \<lparr>flags = 1, initial_face_set = 3, cavity_factor = 1\<rparr>,
                  factor = Some [Some 0]\<rparr>) \<and>
   SCULPT_is_automasking_mode_enabled (example_sculpt 1 None) (Some (example_brush 0 1))
      BRUSH_AUTOMASKING_TOPOLOGY"
proof -
  have init: "SCULPT_automasking_cache_init (example_sculpt 1 None) (Some (example_brush 0 1))
      mesh_single
     = Inr (Some \<lparr>settings = \<lparr>flags = 1, initial_face_set = 3, cavity_factor = 1\<rparr>,
                  factor = Some [Some 0]\<rparr>)"
    by (simp add: SCULPT_automasking_cache_init_def enabled_defs
        SCULPT_automasking_cache_settings_update_def SCULPT_topology_automasking_init_def
        example_defs mesh_single_def flag_simps)
  from factor_array_allocated_iff [OF init] init show ?thesis
    by (simp add: example_brush_def)
qed

subsection \<open>C7: an isolated vertex under Cavity\<close>

lemma calc_cavity_no_neighbors:
  "SCULPT_vertex_neighbors ss v = [] \<Longrightarrow> SCULPT_calc_cavity ss v = Some 0"
  by (simp add: SCULPT_calc_cavity_def)

lemma cavity_factor_of_zero:
  assumes "SCULPT_calc_cavity ss v = Some 0"
  shows "sculpt_automasking_cavity_factor a ss v = Some (1 / 2)"
  using assms
  by (simp add: sculpt_automasking_cavity_factor_def fabsf_def signf_def fmul_def fadd_def
      fsub_def CLAMP_def Let_def)

lemma on_demand_cavity_isolated:
  assumes "factor a = None"
    and "flags (settings a) = BRUSH_AUTOMASKING_CAVITY"
    and "SCULPT_vertex_neighbors ss v = []"
  shows "SCULPT_automasking_factor_get (Some a) ss v = Some (1 / 2)"
  using assms cavity_factor_of_zero [OF calc_cavity_no_neighbors [OF assms(3)], of a]
  by (simp add: SCULPT_automasking_factor_get_def flag_simps)

text \<open>
  C7, as stated: on a single isolated vertex, with only Cavity enabled and
  \<open>cavity_factor = 1\<close>, the query returns exactly 0.5. It does not for every number of
  propagation steps: with three steps \<^verbatim>\<open>SCULPT_automasking_cache_init\<close> allocates the factor
  array, the blur halves the lone vertex's value, and the query returns 0.25.
\<close>

theorem isolated_vertex_three_steps_quarter:
  "SCULPT_is_automasking_enabled (example_sculpt 16 None) mesh_single (Some (example_brush 0 3)) \<and>
   sculpt_automasking_mode_effective_bits (example_sculpt 16 None) (Some (example_brush 0 3))
     = BRUSH_AUTOMASKING_CAVITY \<and>
   automasking_cavity_factor (example_brush 0 3) = 1 \<and>
   SCULPT_vertex_neighbors mesh_single 0 = [] \<and>
   SCULPT_automasking_cache_init (example_sculpt 16 None) (Some (example_brush 0 3)) mesh_single
     = Inr (Some \<lparr>settings = \<lparr>flags = 16, initial_face_set = 3, cavity_factor = 1\<rparr>,
                  factor = Some [Some (1 / 4)]\<rparr>) \<and>
   SCULPT_automasking_factor_get
     (Some \<lparr>settings = \<lparr>flags = 16, initial_face_set = 3, cavity_factor = 1\<rparr>,
             factor = Some [Some (1 / 4)]\<rparr>) mesh_single 0 = Some (1 / 4)"
proof -
  let ?a0 = "\<lparr>settings = \<lparr>flags = 16, initial_face_set = 3, cavity_factor = 1\<rparr>,
              factor = None :: cfloat list option\<rparr>"
  have c: "sculpt_automasking_cavity_factor ?a0 mesh_single 0 = Some (1 / 2)"
    by (rule cavity_factor_of_zero) (simp add: calc_cavity_no_neighbors mesh_single_def)
  have m: "cavity_multiply ?a0 mesh_single [Some 1] = [Some (1 / 2)]"
    using c by (simp add: cavity_multiply_def mesh_single_def fmul_def)
  have b: "cavity_blur mesh_single 3 ([Some (1 / 2)], [Some 1]) = ([Some (1 / 4)], [Some (1 / 2)])"
    by (simp add: cavity_blur_def blur_pass_def blur_vertex_def mesh_single_def fmul_def fadd_def
        upt_rec numeral_nat)
  have i: "sculpt_cavity_automasking_init (example_sculpt 16 None) mesh_single ?a0 [Some 1] 3
             = (Return_factor, [Some (1 / 4)])"
    using m b
    by (simp add: sculpt_cavity_automasking_init_def enabled_defs example_sculpt_def flag_simps
        fmul_def mesh_single_def)
  have init: "SCULPT_automasking_cache_init (example_sculpt 16 None) (Some (example_brush 0 3))
      mesh_single
     = Inr (Some \<lparr>settings = \<lparr>flags = 16, initial_face_set = 3, cavity_factor = 1\<rparr>,
                  factor = Some [Some (1 / 4)]\<rparr>)"
    using i
    by (simp add: SCULPT_automasking_cache_init_def enabled_defs
        SCULPT_automasking_cache_settings_update_def example_defs flag_simps mesh_single_def)
  show ?thesis
    using init
    by (simp add: SCULPT_automasking_factor_get_def enabled_defs example_defs flag_simps
        mesh_single_def)
qed

text \<open>
  C7, amended. On a vertex with no neighbour, with automasking enabled, only the Cavity
  flag in the effective flags, \<open>cavity_factor = 1\<close> and one propagation step (the
  default): \<^verbatim>\<open>SCULPT_automasking_cache_init\<close> returns a cache without a factor array, the
  raw cavity is 0 and the query returns exactly 0.5.
\<close>

theorem isolated_vertex_cavity_half:
  assumes en: "SCULPT_is_automasking_enabled sd ss (Some b)"
    and fl: "sculpt_automasking_mode_effective_bits sd (Some b) = BRUSH_AUTOMASKING_CAVITY"
    and cf: "automasking_cavity_factor b = 1"
    and st: "automasking_boundary_edges_propagation_steps b = 1"
    and nb: "SCULPT_vertex_neighbors ss v = []"
  shows "SCULPT_automasking_cache_init sd (Some b) ss
           = Inr (Some \<lparr>settings = \<lparr>flags = BRUSH_AUTOMASKING_CAVITY,
                                       initial_face_set = SCULPT_active_face_set_get ss,
                                       cavity_factor = 1\<rparr>,
                        factor = None\<rparr>) \<and>
         SCULPT_calc_cavity ss v = Some 0 \<and>
         SCULPT_automasking_factor_get
           (Some \<lparr>settings = \<lparr>flags = BRUSH_AUTOMASKING_CAVITY,
                                initial_face_set = SCULPT_active_face_set_get ss,
                                cavity_factor = 1\<rparr>,
                   factor = None\<rparr>) ss v = Some (1 / 2)"
proof -
  have nc: "\<not> SCULPT_automasking_needs_factors_cache sd (Some b)"
    by (simp add: SCULPT_automasking_needs_factors_cache_def fl st flag_simps)
  have init: "SCULPT_automasking_cache_init sd (Some b) ss
           = Inr (Some \<lparr>settings = \<lparr>flags = BRUSH_AUTOMASKING_CAVITY,
                                       initial_face_set = SCULPT_active_face_set_get ss,
                                       cavity_factor = 1\<rparr>,
                        factor = None\<rparr>)"
    using en nc
    by (simp add: SCULPT_automasking_cache_init_def SCULPT_automasking_cache_settings_update_def
        fl cf)
  moreover have "SCULPT_calc_cavity ss v = Some 0"
    using nb by (rule calc_cavity_no_neighbors)
  moreover have "SCULPT_automasking_factor_get
           (Some \<lparr>settings = \<lparr>flags = BRUSH_AUTOMASKING_CAVITY,
                                initial_face_set = SCULPT_active_face_set_get ss,
                                cavity_factor = 1\<rparr>,
                   factor = None\<rparr>) ss v = Some (1 / 2)"
    using nb by (intro on_demand_cavity_isolated) simp_all
  ultimately show ?thesis by simp
qed

theorem isolated_vertex_cavity_half_witness:
  "SCULPT_is_automasking_enabled (example_sculpt 16 None) mesh_single (Some (example_brush 0 1)) \<and>
   automasking_boundary_edges_propagation_steps (example_brush 0 1) = 1 \<and>
   SCULPT_vertex_neighbors mesh_single 0 = [] \<and>
   SCULPT_automasking_cache_init (example_sculpt 16 None) (Some (example_brush 0 1)) mesh_single
     = Inr (Some (example_cache 16 3)) \<and>
   SCULPT_automasking_factor_get (Some (example_cache 16 3)) mesh_single 0 = Some (1 / 2)"
proof -
  have h: "SCULPT_is_automasking_enabled (example_sculpt 16 None) mesh_single
             (Some (example_brush 0 1))"
    "sculpt_automasking_mode_effective_bits (example_sculpt 16 None) (Some (example_brush 0 1))
       = BRUSH_AUTOMASKING_CAVITY"
    "automasking_cavity_factor (example_brush 0 1) = 1"
    "automasking_boundary_edges_propagation_steps (example_brush 0 1) = 1"
    "SCULPT_vertex_neighbors mesh_single 0 = []"
    by (simp_all add: enabled_defs example_defs mesh_single_def flag_simps)
  have fs: "SCULPT_active_face_set_get mesh_single = 3" by (simp add: mesh_single_def)
  show ?thesis
    using isolated_vertex_cavity_half [OF h] h(1,4,5)
    by (simp add: example_cache_def fs flag_simps)
qed

subsection \<open>C9: a missing pmap\<close>

text \<open>
  C9. When \<^verbatim>\<open>ss->pmap\<close> is missing, the Topology initializer (on a \<^verbatim>\<open>PBVH_FACES\<close> mesh, the
  kind that needs the map) and the boundary initializer fail their assertion, return NULL
  and leave every entry of the caller's factor array as it was.
\<close>

theorem pmap_missing_leaves_factor:
  "(pbvh_type ss = PBVH_FACES \<and> \<not> pmap ss \<longrightarrow>
      SCULPT_topology_automasking_init sd ss automask_factor
        = Inr (Assert_NULL ''Topology masking: pmap missing'', automask_factor)) \<and>
   (\<not> pmap ss \<longrightarrow>
      SCULPT_boundary_automasking_init ss mode propagation_steps automask_factor
        = (Assert_NULL ''Boundary Edges masking: pmap missing'', automask_factor))"
  by (simp add: SCULPT_topology_automasking_init_def SCULPT_boundary_automasking_init_def)

theorem pmap_missing_leaves_factor_witness:
  "\<not> pmap (mesh_chain5\<lparr>pmap := False\<rparr>) \<and>
   snd (SCULPT_boundary_automasking_init (mesh_chain5\<lparr>pmap := False\<rparr>)
          AUTOMASK_INIT_BOUNDARY_EDGES 2 (replicate 5 (Some 1))) = replicate 5 (Some 1) \<and>
   map_sum id snd (SCULPT_topology_automasking_init (example_sculpt 1 None)
          (mesh_chain5\<lparr>pmap := False\<rparr>) (replicate 5 (Some 1))) = Inr (replicate 5 (Some 1))"
  using pmap_missing_leaves_factor [of "mesh_chain5\<lparr>pmap := False\<rparr>" "example_sculpt 1 None"
      "replicate 5 (Some 1)" AUTOMASK_INIT_BOUNDARY_EDGES 2]
  by (simp add: mesh_chain5_def)

subsection \<open>C10: a NULL brush\<close>

text \<open>
  C10. With a NULL brush and one of the five strategy bits (Topology, FaceSets,
  BoundaryEdges, BoundaryFaceSets, Cavity) set in the scene flags,
  \<^verbatim>\<open>SCULPT_automasking_cache_init\<close> passes the enabled check and then dereferences the
  NULL brush in the settings update, although the effective flags tolerate the NULL brush.
\<close>

theorem cache_init_null_brush:
  assumes "sd_automasking_flags sd AND BRUSH_AUTOMASKING_TOPOLOGY \<noteq> 0 \<or>
           sd_automasking_flags sd AND BRUSH_AUTOMASKING_FACE_SETS \<noteq> 0 \<or>
           sd_automasking_flags sd AND BRUSH_AUTOMASKING_BOUNDARY_EDGES \<noteq> 0 \<or>
           sd_automasking_flags sd AND BRUSH_AUTOMASKING_BOUNDARY_FACE_SETS \<noteq> 0 \<or>
           sd_automasking_flags sd AND BRUSH_AUTOMASKING_CAVITY \<noteq> 0"
  shows "SCULPT_automasking_cache_init sd None ss = Inl Null_Dereference \<and>
         sculpt_automasking_mode_effective_bits sd None = sd_automasking_flags sd"
  using assms
  by (auto simp: SCULPT_automasking_cache_init_def enabled_defs
      SCULPT_automasking_cache_settings_update_def)

theorem cache_init_null_brush_witness:
  "sd_automasking_flags (example_sculpt 16 None) AND BRUSH_AUTOMASKING_CAVITY \<noteq> 0 \<and>
   SCULPT_automasking_cache_init (example_sculpt 16 None) None mesh_chain5 = Inl Null_Dereference"
proof -
  have h: "sd_automasking_flags (example_sculpt 16 None) AND BRUSH_AUTOMASKING_CAVITY \<noteq> 0"
    by (simp add: example_defs flag_simps)
  with cache_init_null_brush [of "example_sculpt 16 None" mesh_chain5] show ?thesis
    by simp
qed

text \<open>\<^verbatim>\<open>BRUSH_AUTOMASKING_CAVITY_INVERT\<close> is not one of the five: alone it does not pass
  the enabled check, and the NULL cache is returned before the brush is read.\<close>

lemma cache_init_invert_only:
  "SCULPT_automasking_cache_init (example_sculpt BRUSH_AUTOMASKING_CAVITY_INVERT None) None ss
     = Inr None"
  by (simp add: SCULPT_automasking_cache_init_def enabled_defs example_defs flag_simps)

subsection \<open>C6: the cavity estimate\<close>

lemma cavity_fold:
  "fold (\<lambda>ni (elen, e_num, avg). (elen + len_v3v3 c (co ni), e_num + 1, add_v3_v3 avg (co ni)))
        ns (e, k, (a0, a1, a2))
   = (e + (\<Sum>u\<leftarrow>ns. len_v3v3 c (co u)),
      k + real (length ns),
      (a0 + (\<Sum>u\<leftarrow>ns. fst (co u)),
       a1 + (\<Sum>u\<leftarrow>ns. fst (snd (co u))),
       a2 + (\<Sum>u\<leftarrow>ns. snd (snd (co u)))))"
proof (induction ns arbitrary: e k a0 a1 a2)
  case Nil
  show ?case by simp
next
  case (Cons n ns)
  obtain x y z where co: "co n = (x, y, z)" by (cases "co n") auto
  show ?case
    by (simp add: co Cons.IH algebra_simps)
qed

lemma calc_cavity_eq:
  "SCULPT_calc_cavity ss v = cavity_spec ss v"
proof (cases "SCULPT_vertex_neighbors ss v = []")
  case True
  then show ?thesis by (simp add: SCULPT_calc_cavity_def cavity_spec_def)
next
  case False
  then have "real (length (SCULPT_vertex_neighbors ss v)) \<noteq> 0" by simp
  then show ?thesis
    using False
    by (simp add: SCULPT_calc_cavity_def cavity_spec_def zero_v3_def cavity_fold
        mean_neighbor_position_def mean_edge_length_def Let_def divide_inverse)
qed

text \<open>
  C6. \<^verbatim>\<open>SCULPT_calc_cavity\<close> returns \<open>dot (avg - co) n / elen\<close> with \<open>avg\<close> the mean
  position of the neighbours, \<open>elen\<close> the mean distance from the vertex to them and \<open>n\<close>
  the vertex normal; for a vertex with no neighbour it returns exactly 0.0, with no
  division.
\<close>

theorem calc_cavity_refines_spec:
  "SCULPT_calc_cavity ss v = cavity_spec ss v"
  by (rule calc_cavity_eq)

text \<open>On the chain the middle of two neighbours is flat; a lone vertex gives 0.\<close>

lemma calc_cavity_examples:
  "SCULPT_calc_cavity mesh_chain5 1 = Some 0" "SCULPT_calc_cavity mesh_single 0 = Some 0"
  by (simp_all add: SCULPT_calc_cavity_def mesh_chain5_def mesh_single_def zero_v3_def
      len_v3v3_def fdiv_def)

subsection \<open>Divisions by zero and loops over the vertices\<close>

lemma sq3_zero:
  fixes x y z :: real
  assumes "x * x + y * y + z * z = 0"
  shows "x = 0 \<and> y = 0 \<and> z = 0"
proof -
  have "0 \<le> x * x" "0 \<le> y * y" "0 \<le> z * z" by simp_all
  with assms have "x * x = 0" "y * y = 0" "z * z = 0" by linarith+
  then show ?thesis by simp
qed

lemma len_v3v3_zero: "len_v3v3 a b = 0 \<Longrightarrow> b = a"
proof -
  obtain a0 a1 a2 b0 b1 b2 where ab: "a = (a0, a1, a2)" "b = (b0, b1, b2)"
    by (cases a, cases b) auto
  assume "len_v3v3 a b = 0"
  then have "(b0 - a0) * (b0 - a0) + (b1 - a1) * (b1 - a1) + (b2 - a2) * (b2 - a2) = 0"
    by (simp add: len_v3v3_def ab)
  then have "b0 - a0 = 0 \<and> b1 - a1 = 0 \<and> b2 - a2 = 0"
    by (rule sq3_zero)
  then show ?thesis by (simp add: ab)
qed

lemma len_v3v3_nonneg: "0 \<le> len_v3v3 a b"
proof -
  obtain a0 a1 a2 b0 b1 b2 where ab: "a = (a0, a1, a2)" "b = (b0, b1, b2)"
    by (cases a, cases b) auto
  show ?thesis by (simp add: len_v3v3_def ab)
qed

lemma sum_list_zero_all:
  fixes g :: "'a \<Rightarrow> real"
  shows "(\<And>x. 0 \<le> g x) \<Longrightarrow> (\<Sum>x\<leftarrow>xs. g x) = 0 \<Longrightarrow> \<forall>x \<in> set xs. g x = 0"
proof (induction xs)
  case Nil
  show ?case by simp
next
  case (Cons a xs)
  have "0 \<le> (\<Sum>x\<leftarrow>xs. g x)" by (rule sum_list_nonneg) (auto simp: Cons.prems(1))
  with Cons.prems have "g a = 0" "(\<Sum>x\<leftarrow>xs. g x) = 0"
    by (auto simp: add_nonneg_eq_0_iff)
  with Cons show ?case by simp
qed

text \<open>0/0: when the mean edge length is zero, so is the dividend.\<close>

lemma cavity_zero_divisor:
  assumes "SCULPT_vertex_neighbors ss v \<noteq> []" and "mean_edge_length ss v = 0"
  shows "dot_v3v3 (sub_v3_v3 (mean_neighbor_position ss v) (SCULPT_vertex_co_get ss v))
                  (SCULPT_vertex_normal_get ss v) = 0"
proof -
  let ?ns = "SCULPT_vertex_neighbors ss v"
  let ?c = "SCULPT_vertex_co_get ss v"
  have n0: "real (length ?ns) \<noteq> 0" using assms(1) by simp
  have "(\<Sum>u\<leftarrow>?ns. len_v3v3 ?c (SCULPT_vertex_co_get ss u)) = 0"
    using assms(2) n0 by (simp add: mean_edge_length_def)
  then have "\<forall>u \<in> set ?ns. len_v3v3 ?c (SCULPT_vertex_co_get ss u) = 0"
    by (rule sum_list_zero_all [rotated]) (rule len_v3v3_nonneg)
  then have same: "\<forall>u \<in> set ?ns. SCULPT_vertex_co_get ss u = ?c"
    by (auto dest: len_v3v3_zero)
  have const: "\<And>g. (\<Sum>u\<leftarrow>?ns. g (SCULPT_vertex_co_get ss u)) = real (length ?ns) * g ?c"
  proof -
    fix g :: "float3 \<Rightarrow> real"
    have "map (\<lambda>u. g (SCULPT_vertex_co_get ss u)) ?ns = map (\<lambda>u. g ?c) ?ns"
      using same by simp
    then have "(\<Sum>u\<leftarrow>?ns. g (SCULPT_vertex_co_get ss u)) = (\<Sum>u\<leftarrow>?ns. g ?c)"
      by (rule arg_cong)
    then show "(\<Sum>u\<leftarrow>?ns. g (SCULPT_vertex_co_get ss u)) = real (length ?ns) * g ?c"
      by (simp add: sum_list_triv)
  qed
  obtain c0 c1 c2 where c: "?c = (c0, c1, c2)" by (cases ?c) auto
  obtain m0 m1 m2 where m: "SCULPT_vertex_normal_get ss v = (m0, m1, m2)"
    by (cases "SCULPT_vertex_normal_get ss v") auto
  have "mean_neighbor_position ss v = ?c"
    using n0 const [of fst] const [of "\<lambda>p. fst (snd p)"] const [of "\<lambda>p. snd (snd p)"]
    by (simp add: mean_neighbor_position_def Let_def c)
  then show ?thesis by (simp add: c m)
qed

text \<open>A loop that rewrites entry \<open>i\<close> from entry \<open>i\<close> alone.\<close>

lemma fold_pointwise:
  "m \<le> length f \<Longrightarrow>
   fold (\<lambda>i f. f[i := g i (f ! i)]) [0..<m] f
     = map (\<lambda>j. if j < m then g j (f ! j) else f ! j) [0..<length f]"
proof (induction m)
  case 0
  show ?case by (simp add: map_nth)
next
  case (Suc m)
  then have IH: "fold (\<lambda>i f. f[i := g i (f ! i)]) [0..<m] f
     = map (\<lambda>j. if j < m then g j (f ! j) else f ! j) [0..<length f]" by simp
  show ?case
    using Suc.prems
    by (auto simp: IH intro!: nth_equalityI simp: nth_list_update less_Suc_eq)
qed

lemma fold_pointwise_nth:
  "m \<le> length f \<Longrightarrow> j < length f \<Longrightarrow>
   fold (\<lambda>i f. f[i := g i (f ! i)]) [0..<m] f ! j = (if j < m then g j (f ! j) else f ! j)"
  by (simp add: fold_pointwise)

lemma fold_pointwise_length:
  "length (fold (\<lambda>i f. f[i := g i (f ! i)]) [0..<m] f) = length f"
  by (induction m) simp_all

subsection \<open>C5: the boundary falloff\<close>

lemma boundary_falloff_value:
  "propagation_steps \<noteq> 0 \<Longrightarrow>
   boundary_falloff d propagation_steps
     = Some (1 - (1 - real_of_int d / real_of_int propagation_steps)\<^sup>2)"
  by (simp add: boundary_falloff_def fsub_def fdiv_def pow2f_def fmul_def power2_eq_square)

lemma boundary_falloff_mono:
  assumes "0 < N" "0 \<le> d1" "d1 \<le> d2" "d2 \<le> N"
  shows "1 - (1 - real_of_int d1 / real_of_int N)\<^sup>2 \<le> 1 - (1 - real_of_int d2 / real_of_int N)\<^sup>2"
proof -
  have "real_of_int d1 / real_of_int N \<le> real_of_int d2 / real_of_int N"
    using assms by (simp add: divide_right_mono)
  moreover have "real_of_int d2 / real_of_int N \<le> 1"
    using assms by simp
  ultimately have "(1 - real_of_int d2 / real_of_int N)\<^sup>2 \<le> (1 - real_of_int d1 / real_of_int N)\<^sup>2"
    by (intro power_mono) simp_all
  then show ?thesis by simp
qed

lemma boundary_apply_eq:
  assumes "length f = SCULPT_vertex_count_get ss"
  shows "boundary_apply ss N ed f
     = map (\<lambda>v. if ed ! v = EDGE_DISTANCE_INF then f ! v
                 else fmul (f ! v) (boundary_falloff (ed ! v) N))
           [0..<SCULPT_vertex_count_get ss]"
proof -
  have step: "(\<lambda>i f. if ed ! i = EDGE_DISTANCE_INF then f
                       else f[i := fmul (f ! i) (boundary_falloff (ed ! i) N)])
     = (\<lambda>i f. f[i := (\<lambda>i x. if ed ! i = EDGE_DISTANCE_INF then x
                              else fmul x (boundary_falloff (ed ! i) N)) i (f ! i)])"
    by (intro ext) simp
  show ?thesis
    unfolding boundary_apply_def step
    using assms
      fold_pointwise [of "SCULPT_vertex_count_get ss" f
        "\<lambda>i x. if ed ! i = EDGE_DISTANCE_INF then x else fmul x (boundary_falloff (ed ! i) N)"]
    by simp
qed

lemma chain5_edge_distance:
  "boundary_edge_distance mesh_chain5 AUTOMASK_INIT_BOUNDARY_EDGES 2 = [0, 1, 2, 1, 0]"
  by (simp add: boundary_edge_distance_def propagate_def propagate_pass_def propagate_vertex_def
      edge_distance_seed_def mesh_chain5_def EDGE_DISTANCE_INF_def upt_rec numeral_nat)

text \<open>
  C5. With \<open>propagation_steps = N \<ge> 1\<close> the boundary initializer multiplies the factor of
  every reached vertex by \<open>1 - (1 - d/N)\<^sup>2\<close>, \<open>d\<close> its edge distance, and leaves the
  vertices at INF as they were; the multiplier does not decrease as \<open>d\<close> goes from 0 to
  \<open>N\<close>; for \<open>N = 2\<close> it is 0, 0.75 and 1.0 at the distances 0, 1 and 2.
\<close>

theorem boundary_falloff_law:
  assumes "1 \<le> N" and "pmap ss" and "length f = SCULPT_vertex_count_get ss"
    and "v < SCULPT_vertex_count_get ss"
  shows "snd (SCULPT_boundary_automasking_init ss mode N f) ! v
           = (if boundary_edge_distance ss mode N ! v = EDGE_DISTANCE_INF then f ! v
              else fmul (f ! v) (boundary_falloff (boundary_edge_distance ss mode N ! v) N)) \<and>
         (\<forall>d. boundary_falloff d N = Some (1 - (1 - real_of_int d / real_of_int N)\<^sup>2)) \<and>
         (\<forall>d1 d2. 0 \<le> d1 \<and> d1 \<le> d2 \<and> d2 \<le> N \<longrightarrow>
            the (boundary_falloff d1 N) \<le> the (boundary_falloff d2 N)) \<and>
         boundary_falloff 0 2 = Some 0 \<and> boundary_falloff 1 2 = Some (3 / 4) \<and>
         boundary_falloff 2 2 = Some 1"
proof (intro conjI allI impI)
  show "snd (SCULPT_boundary_automasking_init ss mode N f) ! v
           = (if boundary_edge_distance ss mode N ! v = EDGE_DISTANCE_INF then f ! v
              else fmul (f ! v) (boundary_falloff (boundary_edge_distance ss mode N ! v) N))"
    using assms by (simp add: SCULPT_boundary_automasking_init_def boundary_apply_eq Let_def)
next
  fix d show "boundary_falloff d N = Some (1 - (1 - real_of_int d / real_of_int N)\<^sup>2)"
    using assms(1) by (simp add: boundary_falloff_value)
next
  fix d1 d2 assume "0 \<le> d1 \<and> d1 \<le> d2 \<and> d2 \<le> N"
  then show "the (boundary_falloff d1 N) \<le> the (boundary_falloff d2 N)"
    using assms(1) boundary_falloff_mono [of N d1 d2] by (simp add: boundary_falloff_value)
next
  show "boundary_falloff 0 2 = Some 0" by (simp add: boundary_falloff_value)
  show "boundary_falloff 1 2 = Some (3 / 4)"
    by (simp add: boundary_falloff_value power2_eq_square)
  show "boundary_falloff 2 2 = Some 1" by (simp add: boundary_falloff_value)
qed

theorem boundary_falloff_law_witness:
  "(1::int) \<le> 2 \<and> pmap mesh_chain5 \<and>
   snd (SCULPT_boundary_automasking_init mesh_chain5 AUTOMASK_INIT_BOUNDARY_EDGES 2
          (replicate 5 (Some 1))) ! 1 = Some (3 / 4) \<and>
   snd (SCULPT_boundary_automasking_init mesh_chain5 AUTOMASK_INIT_BOUNDARY_EDGES 2
          (replicate 5 (Some 1))) ! 2 = Some 1 \<and>
   snd (SCULPT_boundary_automasking_init mesh_chain5 AUTOMASK_INIT_BOUNDARY_EDGES 2
          (replicate 5 (Some 1))) ! 0 = Some 0"
proof -
  have h: "(1::int) \<le> 2" "pmap mesh_chain5"
    "length (replicate 5 (Some (1::real))) = SCULPT_vertex_count_get mesh_chain5"
    "0 < SCULPT_vertex_count_get mesh_chain5"
    "1 < SCULPT_vertex_count_get mesh_chain5" "2 < SCULPT_vertex_count_get mesh_chain5"
    by (simp_all add: mesh_chain5_def)
  show ?thesis
    using boundary_falloff_law [OF h(1) h(2) h(3) h(5), of AUTOMASK_INIT_BOUNDARY_EDGES]
      boundary_falloff_law [OF h(1) h(2) h(3) h(6), of AUTOMASK_INIT_BOUNDARY_EDGES]
      boundary_falloff_law [OF h(1) h(2) h(3) h(4), of AUTOMASK_INIT_BOUNDARY_EDGES]
    by (simp add: chain5_edge_distance EDGE_DISTANCE_INF_def fmul_def h(2))
qed

subsection \<open>C4: the propagation is a level-synchronous search\<close>

lemma propagate_vertex_eq:
  "propagate_vertex ss it ed i =
     (if ed ! i = EDGE_DISTANCE_INF \<and> (\<exists>ni \<in> set (SCULPT_vertex_neighbors ss i). ed ! ni = it)
      then ed[i := it + 1] else ed)"
proof -
  let ?g = "\<lambda>ni ed. if ed ! ni = it then ed[i := it + 1] else ed"
  have fixed: "fold ?g ns (ed[i := it + 1]) = ed[i := it + 1]" for ns
    by (induction ns) simp_all
  have "fold ?g ns ed = (if \<exists>ni \<in> set ns. ed ! ni = it then ed[i := it + 1] else ed)" for ns
    by (induction ns) (simp_all add: fixed)
  then show ?thesis by (simp add: propagate_vertex_def)
qed

lemma propagate_pass_prefix:
  assumes wf: "\<forall>i < n. \<forall>ni \<in> set (SCULPT_vertex_neighbors ss i). ni < n"
    and len: "length ed = n" and it: "it \<noteq> EDGE_DISTANCE_INF"
  shows "m \<le> n \<Longrightarrow>
     fold (\<lambda>i ed. propagate_vertex ss it ed i) [0..<m] ed
       = map (\<lambda>i. if i < m \<and> ed ! i = EDGE_DISTANCE_INF \<and>
                      (\<exists>ni \<in> set (SCULPT_vertex_neighbors ss i). ed ! ni = it)
                   then it + 1 else ed ! i) [0..<n]"
proof (induction m)
  case 0
  show ?case using len map_nth [of ed] by simp
next
  case (Suc m)
  let ?new = "\<lambda>k i. if i < k \<and> ed ! i = EDGE_DISTANCE_INF \<and>
                      (\<exists>ni \<in> set (SCULPT_vertex_neighbors ss i). ed ! ni = it)
                   then it + 1 else ed ! i"
  let ?e = "map (?new m) [0..<n]"
  from Suc have IH: "fold (\<lambda>i ed. propagate_vertex ss it ed i) [0..<m] ed = ?e" and m: "m < n"
    by simp_all
  have same: "?e ! ni = it \<longleftrightarrow> ed ! ni = it" if "ni < n" for ni
    using that it by simp
  have nb: "(\<exists>ni \<in> set (SCULPT_vertex_neighbors ss m). ?e ! ni = it)
     \<longleftrightarrow> (\<exists>ni \<in> set (SCULPT_vertex_neighbors ss m). ed ! ni = it)"
    using wf m same by blast
  have em: "?e ! m = ed ! m" using m by simp
  have "propagate_vertex ss it ?e m = map (?new (Suc m)) [0..<n]"
    unfolding propagate_vertex_eq em nb
    using m by (auto intro!: nth_equalityI simp: nth_list_update less_Suc_eq)
  then show ?case by (simp add: IH)
qed

lemma propagate_pass_snapshot:
  assumes "\<forall>i < SCULPT_vertex_count_get ss. \<forall>ni \<in> set (SCULPT_vertex_neighbors ss i).
             ni < SCULPT_vertex_count_get ss"
    and "length ed = SCULPT_vertex_count_get ss"
  shows "propagate_pass ss (int k) ed = snapshot_pass ss (int k) ed"
  using propagate_pass_prefix [OF assms, of "int k" "SCULPT_vertex_count_get ss"]
  by (simp add: propagate_pass_def snapshot_pass_def EDGE_DISTANCE_INF_def cong: map_cong)


lemma hop_distance_None:
  "hop_distance ss seed n v = None \<longleftrightarrow> (\<forall>j \<le> n. \<not> hops ss seed j v)"
proof (induction n)
  case 0
  show ?case by simp
next
  case (Suc n)
  show ?case
  proof (cases "hop_distance ss seed n v")
    case None
    with Suc show ?thesis by (auto simp: le_Suc_eq)
  next
    case (Some d)
    with Suc show ?thesis by (auto simp: le_Suc_eq)
  qed
qed

lemma hop_distance_Some:
  "hop_distance ss seed n v = Some d \<longleftrightarrow>
     d \<le> n \<and> hops ss seed d v \<and> (\<forall>j < d. \<not> hops ss seed j v)"
proof (induction n arbitrary: d)
  case 0
  show ?case by auto
next
  case (Suc n)
  show ?case
  proof (cases "hop_distance ss seed n v")
    case None
    then have no: "\<forall>j \<le> n. \<not> hops ss seed j v" by (simp add: hop_distance_None)
    show ?thesis
    proof
      assume "hop_distance ss seed (Suc n) v = Some d"
      with None have "d = Suc n" "hops ss seed (Suc n) v" by (auto split: if_splits)
      with no show "d \<le> Suc n \<and> hops ss seed d v \<and> (\<forall>j < d. \<not> hops ss seed j v)"
        by (auto simp: less_Suc_eq_le)
    next
      assume r: "d \<le> Suc n \<and> hops ss seed d v \<and> (\<forall>j < d. \<not> hops ss seed j v)"
      with no have "d = Suc n" by (metis le_Suc_eq)
      with r None show "hop_distance ss seed (Suc n) v = Some d" by simp
    qed
  next
    case (Some d')
    then have d': "d' \<le> n" "hops ss seed d' v" "\<forall>j < d'. \<not> hops ss seed j v"
      by (simp_all add: Suc.IH)
    have next_eq: "hop_distance ss seed (Suc n) v = Some d'" using Some by simp
    show ?thesis
    proof
      assume "hop_distance ss seed (Suc n) v = Some d"
      with next_eq have "d = d'" by simp
      with d' show "d \<le> Suc n \<and> hops ss seed d v \<and> (\<forall>j < d. \<not> hops ss seed j v)" by simp
    next
      assume r: "d \<le> Suc n \<and> hops ss seed d v \<and> (\<forall>j < d. \<not> hops ss seed j v)"
      with d' have "d = d'" by (metis linorder_neqE_nat)
      with next_eq show "hop_distance ss seed (Suc n) v = Some d" by simp
    qed
  qed
qed

lemma edge_distance_seed_eq:
  assumes "length ed = SCULPT_vertex_count_get ss"
  shows "edge_distance_seed ss mode ed
     = map (\<lambda>v. if boundary_seed ss mode v then 0 else EDGE_DISTANCE_INF)
           [0..<SCULPT_vertex_count_get ss]"
proof -
  have step: "(\<lambda>i ed.
             let ed = ed[i := EDGE_DISTANCE_INF]
             in (case mode of
                   AUTOMASK_INIT_BOUNDARY_EDGES \<Rightarrow>
                     if SCULPT_vertex_is_boundary ss i then ed[i := 0] else ed
                 | AUTOMASK_INIT_BOUNDARY_FACE_SETS \<Rightarrow>
                     if \<not> SCULPT_vertex_has_unique_face_set ss i then ed[i := 0] else ed))
     = (\<lambda>i ed. ed[i := (\<lambda>i x. if boundary_seed ss mode i then 0 else EDGE_DISTANCE_INF) i (ed ! i)])"
    by (intro ext) (simp add: boundary_seed_def split: eBoundaryAutomaskMode.splits)
  show ?thesis
    unfolding edge_distance_seed_def step
    using assms
      fold_pointwise [of "SCULPT_vertex_count_get ss" ed
        "\<lambda>i x. if boundary_seed ss mode i then 0 else EDGE_DISTANCE_INF"]
    by simp
qed

text \<open>The array of hop distances up to \<open>k\<close>.\<close>

lemma snapshot_pass_level:
  assumes wf: "\<forall>i < SCULPT_vertex_count_get ss. \<forall>ni \<in> set (SCULPT_vertex_neighbors ss i).
             ni < SCULPT_vertex_count_get ss"
  shows "snapshot_pass ss (int k)
           (map (\<lambda>v. case hop_distance ss seed k v of Some d \<Rightarrow> int d | None \<Rightarrow> EDGE_DISTANCE_INF)
                [0..<SCULPT_vertex_count_get ss])
         = map (\<lambda>v. case hop_distance ss seed (Suc k) v of
                       Some d \<Rightarrow> int d | None \<Rightarrow> EDGE_DISTANCE_INF)
               [0..<SCULPT_vertex_count_get ss]"
proof -
  let ?n = "SCULPT_vertex_count_get ss"
  let ?D = "\<lambda>k v. case hop_distance ss seed k v of Some d \<Rightarrow> int d | None \<Rightarrow> EDGE_DISTANCE_INF"
  have inf: "?D k v = EDGE_DISTANCE_INF \<longleftrightarrow> hop_distance ss seed k v = None" for v
    by (simp add: EDGE_DISTANCE_INF_def split: option.splits)
  have lev: "?D k u = int k \<longleftrightarrow> hop_distance ss seed k u = Some k" for u
    by (auto simp: EDGE_DISTANCE_INF_def split: option.splits)
  have step: "(if ?D k v = EDGE_DISTANCE_INF \<and>
                  (\<exists>ni \<in> set (SCULPT_vertex_neighbors ss v). ?D k ni = int k)
               then int k + 1 else ?D k v) = ?D (Suc k) v" if v: "v < ?n" for v
  proof (cases "hop_distance ss seed k v")
    case (Some d)
    then show ?thesis by (simp add: EDGE_DISTANCE_INF_def)
  next
    case None
    then have no: "\<forall>j \<le> k. \<not> hops ss seed j v" by (simp add: hop_distance_None)
    have "(\<exists>ni \<in> set (SCULPT_vertex_neighbors ss v). hop_distance ss seed k ni = Some k)
       \<longleftrightarrow> hops ss seed (Suc k) v"
    proof
      assume "\<exists>ni \<in> set (SCULPT_vertex_neighbors ss v). hop_distance ss seed k ni = Some k"
      then show "hops ss seed (Suc k) v" by (auto simp: hop_distance_Some)
    next
      assume "hops ss seed (Suc k) v"
      then obtain u where u: "u \<in> set (SCULPT_vertex_neighbors ss v)" "hops ss seed k u"
        by auto
      have "\<not> hops ss seed j u" if "j < k" for j
      proof
        assume "hops ss seed j u"
        with u(1) have "hops ss seed (Suc j) v" by auto
        with no that show False by (metis Suc_leI)
      qed
      with u show "\<exists>ni \<in> set (SCULPT_vertex_neighbors ss v). hop_distance ss seed k ni = Some k"
        by (auto simp: hop_distance_Some)
    qed
    with None show ?thesis by (simp add: inf lev)
  qed
  have nb: "(\<exists>ni \<in> set (SCULPT_vertex_neighbors ss v). map (?D k) [0..<?n] ! ni = int k)
     \<longleftrightarrow> (\<exists>ni \<in> set (SCULPT_vertex_neighbors ss v). ?D k ni = int k)" if "v < ?n" for v
    using wf that by (intro bex_cong refl) simp
  show ?thesis
  proof (rule nth_equalityI)
    show "length (snapshot_pass ss (int k) (map (?D k) [0..<?n])) = length (map (?D (Suc k)) [0..<?n])"
      by (simp add: snapshot_pass_def)
  next
    fix v assume "v < length (snapshot_pass ss (int k) (map (?D k) [0..<?n]))"
    then have v: "v < ?n" by (simp add: snapshot_pass_def)
    have "snapshot_pass ss (int k) (map (?D k) [0..<?n]) ! v
        = (if ?D k v = EDGE_DISTANCE_INF \<and>
                  (\<exists>ni \<in> set (SCULPT_vertex_neighbors ss v). ?D k ni = int k)
               then int k + 1 else ?D k v)"
      using v by (auto simp add: snapshot_pass_def nb [OF v] simp del: hop_distance.simps)
    also have "\<dots> = ?D (Suc k) v" by (rule step [OF v])
    finally show "snapshot_pass ss (int k) (map (?D k) [0..<?n]) ! v = map (?D (Suc k)) [0..<?n] ! v"
      using v by (simp del: hop_distance.simps)
  qed
qed

lemma propagate_level:
  assumes wf: "\<forall>i < SCULPT_vertex_count_get ss. \<forall>ni \<in> set (SCULPT_vertex_neighbors ss i).
             ni < SCULPT_vertex_count_get ss"
  shows "fold (\<lambda>propagation_it ed. propagate_pass ss (int propagation_it) ed) [0..<k]
           (map (\<lambda>v. case hop_distance ss seed 0 v of Some d \<Rightarrow> int d | None \<Rightarrow> EDGE_DISTANCE_INF)
                [0..<SCULPT_vertex_count_get ss])
         = map (\<lambda>v. case hop_distance ss seed k v of Some d \<Rightarrow> int d | None \<Rightarrow> EDGE_DISTANCE_INF)
               [0..<SCULPT_vertex_count_get ss]"
proof (induction k)
  case 0
  show ?case by simp
next
  case (Suc k)
  show ?case
    using propagate_pass_snapshot [OF wf, of
        "map (\<lambda>v. case hop_distance ss seed k v of Some d \<Rightarrow> int d | None \<Rightarrow> EDGE_DISTANCE_INF)
               [0..<SCULPT_vertex_count_get ss]" k]
      snapshot_pass_level [OF wf, of k seed]
    by (simp add: Suc.IH del: hop_distance.simps)
qed

lemma boundary_edge_distance_eq:
  assumes wf: "\<forall>i < SCULPT_vertex_count_get ss. \<forall>ni \<in> set (SCULPT_vertex_neighbors ss i).
             ni < SCULPT_vertex_count_get ss"
  shows "boundary_edge_distance ss mode N
     = map (\<lambda>v. case hop_distance ss (boundary_seed ss mode) (nat N) v of
                   Some d \<Rightarrow> int d | None \<Rightarrow> EDGE_DISTANCE_INF)
           [0..<SCULPT_vertex_count_get ss]"
proof -
  have seed: "edge_distance_seed ss mode (replicate (SCULPT_vertex_count_get ss) 0)
     = map (\<lambda>v. case hop_distance ss (boundary_seed ss mode) 0 v of
                   Some d \<Rightarrow> int d | None \<Rightarrow> EDGE_DISTANCE_INF)
           [0..<SCULPT_vertex_count_get ss]"
    by (simp add: edge_distance_seed_eq)
  show ?thesis
    unfolding boundary_edge_distance_def propagate_def seed
    by (rule propagate_level [OF wf])
qed

lemma chain5_wf:
  "\<forall>i < SCULPT_vertex_count_get mesh_chain5.
     \<forall>ni \<in> set (SCULPT_vertex_neighbors mesh_chain5 i). ni < SCULPT_vertex_count_get mesh_chain5"
  by (auto simp: mesh_chain5_def split: if_splits)

text \<open>
  C4. On a mesh whose neighbour lists name vertices of the mesh: after the loop over
  \<open>propagation_it\<close>, \<open>edge_distance[v]\<close> is the hop distance from \<open>v\<close> to the seed set when
  that distance is at most \<open>propagation_steps\<close>, and INF otherwise (for every number of
  steps, so that each iteration moves the frontier by one hop); and a pass of the loop,
  which writes \<open>edge_distance\<close> in place, computes what a pass reading only the values
  from the start of the pass computes. \<open>hop_distance\<close> is the least number of hops
  (lemmas \<open>hop_distance_Some\<close>, \<open>hop_distance_None\<close>).
\<close>

theorem boundary_propagation_level_synchronous:
  assumes "\<forall>i < SCULPT_vertex_count_get ss. \<forall>ni \<in> set (SCULPT_vertex_neighbors ss i).
             ni < SCULPT_vertex_count_get ss"
  shows "(\<forall>v < SCULPT_vertex_count_get ss.
            boundary_edge_distance ss mode propagation_steps ! v
              = (case hop_distance ss (boundary_seed ss mode) (nat propagation_steps) v of
                   Some d \<Rightarrow> int d | None \<Rightarrow> EDGE_DISTANCE_INF)) \<and>
         (\<forall>propagation_it edge_distance. length edge_distance = SCULPT_vertex_count_get ss \<longrightarrow>
            propagate_pass ss (int propagation_it) edge_distance
              = snapshot_pass ss (int propagation_it) edge_distance)"
  using propagate_pass_snapshot [OF assms]
  by (simp add: boundary_edge_distance_eq [OF assms] del: hop_distance.simps)

theorem boundary_propagation_level_synchronous_witness:
  "boundary_edge_distance mesh_chain5 AUTOMASK_INIT_BOUNDARY_EDGES 2 ! 2 = 2 \<and>
   boundary_edge_distance mesh_chain5 AUTOMASK_INIT_BOUNDARY_EDGES 1 ! 2 = EDGE_DISTANCE_INF \<and>
   boundary_edge_distance mesh_chain5 AUTOMASK_INIT_BOUNDARY_EDGES 1 ! 1 = 1"
proof -
  have v: "1 < SCULPT_vertex_count_get mesh_chain5" "2 < SCULPT_vertex_count_get mesh_chain5"
    by (simp_all add: mesh_chain5_def)
  have d: "hop_distance mesh_chain5 (boundary_seed mesh_chain5 AUTOMASK_INIT_BOUNDARY_EDGES) 2 2
             = Some 2"
    "hop_distance mesh_chain5 (boundary_seed mesh_chain5 AUTOMASK_INIT_BOUNDARY_EDGES) 1 2 = None"
    "hop_distance mesh_chain5 (boundary_seed mesh_chain5 AUTOMASK_INIT_BOUNDARY_EDGES) 1 1
             = Some 1"
    by (simp_all add: numeral_2_eq_2 boundary_seed_def mesh_chain5_def)
  show ?thesis
    using boundary_propagation_level_synchronous [OF chain5_wf, of AUTOMASK_INIT_BOUNDARY_EDGES 2]
      boundary_propagation_level_synchronous [OF chain5_wf, of AUTOMASK_INIT_BOUNDARY_EDGES 1] v d
    by (simp del: hop_distance.simps)
qed

subsection \<open>C8: the cavity blur\<close>

lemma blur_neighbor_fold:
  "fold (\<lambda>ni (sum, tot). (fadd sum (scratch ! ni), tot + 1)) ns (s, t)
     = (fold (\<lambda>u s. fadd s (scratch ! u)) ns s, t + length ns)"
  by (induction ns arbitrary: s t) simp_all

text \<open>What one pass of the blur computes: the neighbours are read in \<open>scratch\<close>, the
  vertex's own term in the buffer that is being written.\<close>

lemma blur_vertex_eq:
  "blur_vertex ss scratch f i
     = f[i := fmul (fadd (neighbor_mean ss scratch i) (f ! i)) (Some (1 / 2))]"
  unfolding blur_vertex_def blur_neighbor_fold
  by (cases "SCULPT_vertex_neighbors ss i = []") (simp_all add: neighbor_mean_def Let_def)

lemma blur_pass_eq:
  assumes "length f = SCULPT_vertex_count_get ss"
  shows "blur_pass ss scratch f
     = map (\<lambda>v. fmul (fadd (neighbor_mean ss scratch v) (f ! v)) (Some (1 / 2)))
           [0..<SCULPT_vertex_count_get ss]"
  unfolding blur_pass_def blur_vertex_eq
  using assms
    fold_pointwise [of "SCULPT_vertex_count_get ss" f
      "\<lambda>i x. fmul (fadd (neighbor_mean ss scratch i) x) (Some (1 / 2))"]
  by simp

text \<open>One more iteration of the blur loop on the pair \<open>(factor, scratch)\<close>: the new
  \<open>factor\<close> is computed from the neighbours in the old \<open>factor\<close> (the previous round)
  and from the vertex's own entry in the old \<open>scratch\<close> (the round before that).\<close>

lemma cavity_blur_round:
  assumes "1 < steps" and "cavity_blur ss (steps - 1) bufs = (f, s)"
    and "length s = SCULPT_vertex_count_get ss"
  shows "cavity_blur ss steps bufs
     = (map (\<lambda>v. fmul (fadd (neighbor_mean ss f v) (s ! v)) (Some (1 / 2)))
            [0..<SCULPT_vertex_count_get ss], f)"
proof -
  from assms(1) have m: "nat (steps - 1) = Suc (nat (steps - 2))"
    by linarith
  have "cavity_blur ss steps bufs
      = (let (f, s) = cavity_blur ss (steps - 1) bufs in (blur_pass ss f s, f))"
    by (simp add: cavity_blur_def m split_def Let_def)
  with assms(2,3) show ?thesis by (simp add: blur_pass_eq)
qed

text \<open>
  C8 says that a round of the blur gives every vertex the mean of its neighbours' values
  of the previous round plus its own value of the previous round, halved, so that an
  isolated vertex keeps half its previous value. The code does not: after the \<^verbatim>\<open>SWAP\<close> the
  own term \<^verbatim>\<open>factor[i]\<close> is read from the buffer that is being written, which holds the
  values of two rounds earlier (1.0 in the first round). For a single isolated vertex
  with cavity value 0.5 and two propagation steps the one round of the code gives
  \<open>(0 + 1.0) * 0.5 = 0.5\<close>, where the round of the specification gives 0.25.
\<close>

theorem cavity_blur_stale_own_value:
  "cavity_multiply (example_cache 16 3) mesh_single [Some 1] = [Some (1 / 2)] \<and>
   cavity_blur mesh_single 2 ([Some (1 / 2)], [Some 1]) = ([Some (1 / 2)], [Some (1 / 2)]) \<and>
   blur_round_spec mesh_single [Some (1 / 2)] = [Some (1 / 4)] \<and>
   sculpt_cavity_automasking_init (example_sculpt 16 None) mesh_single (example_cache 16 3)
      [Some 1] 2 = (Return_factor, [Some (1 / 2)])"
proof -
  have c: "sculpt_automasking_cavity_factor (example_cache 16 3) mesh_single 0 = Some (1 / 2)"
    by (rule cavity_factor_of_zero) (simp add: calc_cavity_no_neighbors mesh_single_def)
  have m: "cavity_multiply (example_cache 16 3) mesh_single [Some 1] = [Some (1 / 2)]"
    using c by (simp add: cavity_multiply_def mesh_single_def fmul_def)
  have b: "cavity_blur mesh_single 2 ([Some (1 / 2)], [Some 1]) = ([Some (1 / 2)], [Some (1 / 2)])"
    by (simp add: cavity_blur_def blur_pass_def blur_vertex_def mesh_single_def fmul_def fadd_def)
  have s: "blur_round_spec mesh_single [Some (1 / 2)] = [Some (1 / 4)]"
    by (simp add: blur_round_spec_def neighbor_mean_def mesh_single_def fmul_def fadd_def)
  have i: "sculpt_cavity_automasking_init (example_sculpt 16 None) mesh_single (example_cache 16 3)
      [Some 1] 2 = (Return_factor, [Some (1 / 2)])"
    using m b
    by (simp add: sculpt_cavity_automasking_init_def enabled_defs example_sculpt_def flag_simps
        fmul_def mesh_single_def)
  from m b s i show ?thesis by simp
qed

text \<open>The same on the chain, where every vertex has neighbours: from cavity values 0.5
  everywhere the one round of the code gives 0.75, the round of the specification 0.5.\<close>

lemma cavity_blur_chain5:
  "fst (cavity_blur mesh_chain5 2 (replicate 5 (Some (1 / 2)), replicate 5 (Some 1)))
     = replicate 5 (Some (3 / 4))"
  "blur_round_spec mesh_chain5 (replicate 5 (Some (1 / 2))) = replicate 5 (Some (1 / 2))"
proof -
  have n: "SCULPT_vertex_count_get mesh_chain5 = 5" by (simp add: mesh_chain5_def)
  have m: "neighbor_mean mesh_chain5 (replicate 5 (Some (1 / 2))) v = Some (1 / 2)" if "v < 5" for v
    using that
    by (auto simp: neighbor_mean_def mesh_chain5_def fadd_def fdiv_def Let_def)
  have one: "cavity_blur mesh_chain5 1 (replicate 5 (Some (1 / 2)), replicate 5 (Some 1))
      = (replicate 5 (Some (1 / 2)), replicate 5 (Some 1))"
    by (simp add: cavity_blur_def)
  have "cavity_blur mesh_chain5 2 (replicate 5 (Some (1 / 2)), replicate 5 (Some 1))
      = (map (\<lambda>v. fmul (fadd (neighbor_mean mesh_chain5 (replicate 5 (Some (1 / 2))) v)
                              (replicate 5 (Some 1) ! v)) (Some (1 / 2))) [0..<5],
         replicate 5 (Some (1 / 2)))"
    using cavity_blur_round [of 2 mesh_chain5 "(replicate 5 (Some (1 / 2)), replicate 5 (Some 1))"
        "replicate 5 (Some (1 / 2))" "replicate 5 (Some 1)"] one n
    by simp
  also have "map (\<lambda>v. fmul (fadd (neighbor_mean mesh_chain5 (replicate 5 (Some (1 / 2))) v)
                              (replicate 5 (Some 1) ! v)) (Some (1 / 2))) [0..<5]
      = replicate 5 (Some (3 / 4))"
    by (rule nth_equalityI) (simp_all add: m fadd_def fmul_def)
  finally show "fst (cavity_blur mesh_chain5 2 (replicate 5 (Some (1 / 2)), replicate 5 (Some 1)))
     = replicate 5 (Some (3 / 4))" by simp
  show "blur_round_spec mesh_chain5 (replicate 5 (Some (1 / 2))) = replicate 5 (Some (1 / 2))"
    unfolding blur_round_spec_def n
    by (rule nth_equalityI) (simp_all add: m fadd_def fmul_def)
qed

subsection \<open>C1: the range of the query\<close>

text \<open>The other division: with zero propagation steps the outer loop does not run and
  every edge distance is 0 or INF, so that a zero divisor meets a zero dividend.\<close>

lemma boundary_zero_divisor:
  assumes "v < SCULPT_vertex_count_get ss"
  shows "boundary_edge_distance ss mode 0 ! v = 0 \<or>
         boundary_edge_distance ss mode 0 ! v = EDGE_DISTANCE_INF"
  using assms by (simp add: boundary_edge_distance_def propagate_def edge_distance_seed_eq)

lemma in_unit_range_simps:
  "in_unit_range (Some r) \<longleftrightarrow> 0 \<le> r \<and> r \<le> 1" "\<not> in_unit_range None"
  by (simp_all add: in_unit_range_def)

lemma in_unit_range_fmul:
  "in_unit_range a \<Longrightarrow> in_unit_range b \<Longrightarrow> in_unit_range (fmul a b)"
  by (cases a; cases b) (auto simp: in_unit_range_def fmul_def mult_le_one)

lemma in_unit_range_halved:
  "in_unit_range a \<Longrightarrow> in_unit_range b \<Longrightarrow> in_unit_range (fmul (fadd a b) (Some (1 / 2)))"
  by (cases a; cases b) (auto simp: in_unit_range_def fmul_def fadd_def)

lemma cavity_factor_in_range:
  assumes "SCULPT_calc_cavity ss v = Some c"
  shows "in_unit_range (sculpt_automasking_cavity_factor a ss v)"
  using assms
  by (simp add: sculpt_automasking_cavity_factor_def Let_def fabsf_def signf_def fmul_def
      fadd_def fsub_def CLAMP_def in_unit_range_def)

lemma calc_cavity_number:
  assumes "SCULPT_vertex_neighbors ss v \<noteq> [] \<longrightarrow> mean_edge_length ss v \<noteq> 0"
  shows "\<exists>c. SCULPT_calc_cavity ss v = Some c"
  using assms by (simp add: calc_cavity_eq cavity_spec_def fdiv_def)


lemma factors_in_range_nth:
  "factors_in_range n f \<longleftrightarrow> length f = n \<and> (\<forall>v < n. in_unit_range (f ! v))"
  by (auto simp: factors_in_range_def list_all_length)

lemma factors_in_range_map:
  "factors_in_range n (map g [0..<n]) \<longleftrightarrow> (\<forall>v < n. in_unit_range (g v))"
  by (simp add: factors_in_range_nth)

lemma factors_in_range_update:
  "factors_in_range n f \<Longrightarrow> in_unit_range x \<Longrightarrow> factors_in_range n (f[i := x])"
  by (cases "i < length f") (auto simp: factors_in_range_nth nth_list_update)

lemma in_unit_range_zero: "in_unit_range x \<Longrightarrow> in_unit_range (fmul x (Some 0))"
  by (cases x) (simp_all add: in_unit_range_def fmul_def)

lemma factors_in_range_pointwise:
  assumes "factors_in_range n f" and "\<And>v x. v < n \<Longrightarrow> in_unit_range x \<Longrightarrow> in_unit_range (g v x)"
  shows "factors_in_range n (fold (\<lambda>i f. f[i := g i (f ! i)]) [0..<n] f)"
  using assms fold_pointwise [of n f g] by (simp add: factors_in_range_nth)

text \<open>Topology.\<close>

lemma floodfill_cb_in_range:
  "factors_in_range n f \<Longrightarrow>
   factors_in_range n (fold (\<lambda>(from_v, to_v) f. snd (automask_floodfill_cb ss fdata f from_v to_v))
                            visits f)"
proof (induction visits arbitrary: f)
  case Nil
  then show ?case by simp
next
  case (Cons e visits)
  obtain from_v to_v where e: "e = (from_v, to_v)" by (cases e) auto
  have "factors_in_range n (snd (automask_floodfill_cb ss fdata f from_v to_v))"
    using Cons.prems
    by (simp add: automask_floodfill_cb_def Let_def factors_in_range_update in_unit_range_def)
  then show ?case by (simp add: e Cons.IH)
qed

lemma topology_init_in_range:
  assumes "factors_in_range (SCULPT_vertex_count_get ss) f"
    and "SCULPT_topology_automasking_init sd ss f = Inr (r, f')"
  shows "factors_in_range (SCULPT_vertex_count_get ss) f'"
proof (cases "pbvh_type ss = PBVH_FACES \<and> \<not> pmap ss")
  case True
  with assms show ?thesis by (simp add: SCULPT_topology_automasking_init_def)
next
  case False
  let ?n = "SCULPT_vertex_count_get ss"
  have z: "factors_in_range ?n (fold (\<lambda>i f. f[i := Some 0]) [0..<?n] f)"
    using factors_in_range_pointwise [OF assms(1), of "\<lambda>i x. Some 0"]
    by (simp add: in_unit_range_def)
  from assms(2) False show ?thesis
    by (auto simp: SCULPT_topology_automasking_init_def Let_def floodfill_cb_in_range [OF z]
        split: option.splits sum.splits)
qed

text \<open>Face sets.\<close>

lemma face_sets_init_in_range:
  assumes "factors_in_range (SCULPT_vertex_count_get ss) f"
  shows "factors_in_range (SCULPT_vertex_count_get ss) (snd (sculpt_face_sets_automasking_init sd ss f))"
proof -
  let ?n = "SCULPT_vertex_count_get ss"
  let ?c = "\<lambda>i. \<not> SCULPT_vertex_has_face_set ss i (SCULPT_active_face_set_get ss)"
  have step: "(\<lambda>i f. if ?c i then f[i := fmul (f ! i) (Some 0)] else f)
     = (\<lambda>i f. f[i := (\<lambda>i x. if ?c i then fmul x (Some 0) else x) i (f ! i)])"
    by (intro ext) simp
  have "factors_in_range ?n (fold (\<lambda>i f. if ?c i then f[i := fmul (f ! i) (Some 0)] else f) [0..<?n] f)"
    unfolding step
    by (rule factors_in_range_pointwise [OF assms]) (simp add: in_unit_range_zero)
  with assms show ?thesis
    by (simp add: sculpt_face_sets_automasking_init_def Let_def)
qed


text \<open>Cavity.\<close>

lemma cavity_multiply_in_range:
  assumes "factors_in_range (SCULPT_vertex_count_get ss) f"
    and nondeg: "\<forall>v < SCULPT_vertex_count_get ss.
        SCULPT_vertex_neighbors ss v \<noteq> [] \<longrightarrow> mean_edge_length ss v \<noteq> 0"
  shows "factors_in_range (SCULPT_vertex_count_get ss) (cavity_multiply a ss f)"
  unfolding cavity_multiply_def
proof (rule factors_in_range_pointwise [OF assms(1),
      of "\<lambda>i x. fmul x (sculpt_automasking_cavity_factor a ss i)"])
  fix v x assume v: "v < SCULPT_vertex_count_get ss" and x: "in_unit_range x"
  from nondeg v obtain c where "SCULPT_calc_cavity ss v = Some c"
    using calc_cavity_number [of ss v] by auto
  then have "in_unit_range (sculpt_automasking_cavity_factor a ss v)"
    by (rule cavity_factor_in_range)
  with x show "in_unit_range (fmul x (sculpt_automasking_cavity_factor a ss v))"
    by (rule in_unit_range_fmul)
qed

lemma neighbor_sum_bounds:
  "\<forall>u \<in> set ns. in_unit_range (f ! u) \<Longrightarrow>
   \<exists>t. fold (\<lambda>u s. fadd s (f ! u)) ns (Some t0) = Some t \<and> t0 \<le> t \<and> t \<le> t0 + real (length ns)"
proof (induction ns arbitrary: t0)
  case Nil
  show ?case by simp
next
  case (Cons u ns)
  then obtain r where r: "f ! u = Some r" "0 \<le> r" "r \<le> 1"
    by (cases "f ! u") (auto simp: in_unit_range_def)
  from Cons.prems have "\<forall>u \<in> set ns. in_unit_range (f ! u)" by simp
  from Cons.IH [OF this, of "t0 + r"] obtain t
    where "fold (\<lambda>u s. fadd s (f ! u)) ns (Some (t0 + r)) = Some t" "t0 + r \<le> t"
      "t \<le> t0 + r + real (length ns)" by auto
  with r show ?case by (auto simp: fadd_def)
qed

lemma neighbor_mean_in_range:
  assumes "\<forall>u \<in> set (SCULPT_vertex_neighbors ss v). in_unit_range (f ! u)"
  shows "in_unit_range (neighbor_mean ss f v)"
proof (cases "SCULPT_vertex_neighbors ss v = []")
  case True
  then show ?thesis by (simp add: neighbor_mean_def in_unit_range_def)
next
  case False
  let ?ns = "SCULPT_vertex_neighbors ss v"
  from neighbor_sum_bounds [OF assms, of 0] obtain t
    where t: "fold (\<lambda>u s. fadd s (f ! u)) ?ns (Some 0) = Some t" "0 \<le> t" "t \<le> real (length ?ns)"
    by auto
  from False have "0 < real (length ?ns)" by simp
  with t show ?thesis
    using False by (simp add: neighbor_mean_def Let_def fdiv_def in_unit_range_def)
qed

lemma blur_pass_in_range:
  assumes wf: "\<forall>i < SCULPT_vertex_count_get ss. \<forall>ni \<in> set (SCULPT_vertex_neighbors ss i).
             ni < SCULPT_vertex_count_get ss"
    and "factors_in_range (SCULPT_vertex_count_get ss) scratch"
    and "factors_in_range (SCULPT_vertex_count_get ss) f"
  shows "factors_in_range (SCULPT_vertex_count_get ss) (blur_pass ss scratch f)"
proof -
  have "in_unit_range (fmul (fadd (neighbor_mean ss scratch v) (f ! v)) (Some (1 / 2)))"
    if v: "v < SCULPT_vertex_count_get ss" for v
  proof (rule in_unit_range_halved)
    show "in_unit_range (neighbor_mean ss scratch v)"
      using wf v assms(2) by (intro neighbor_mean_in_range) (auto simp: factors_in_range_nth)
    show "in_unit_range (f ! v)" using v assms(3) by (simp add: factors_in_range_nth)
  qed
  then show ?thesis
    using assms(3) by (simp add: blur_pass_eq factors_in_range_nth)
qed

lemma cavity_blur_in_range:
  assumes wf: "\<forall>i < SCULPT_vertex_count_get ss. \<forall>ni \<in> set (SCULPT_vertex_neighbors ss i).
             ni < SCULPT_vertex_count_get ss"
  shows "factors_in_range (SCULPT_vertex_count_get ss) f \<Longrightarrow>
     factors_in_range (SCULPT_vertex_count_get ss) s \<Longrightarrow>
     factors_in_range (SCULPT_vertex_count_get ss)
       (fst (fold (\<lambda>iteration (factor, scratch). (blur_pass ss factor scratch, factor))
                  its (f, s)))"
proof (induction its arbitrary: f s)
  case Nil
  then show ?case by simp
next
  case (Cons i its)
  have "factors_in_range (SCULPT_vertex_count_get ss) (blur_pass ss f s)"
    using wf Cons.prems by (intro blur_pass_in_range)
  with Cons.prems(1) show ?case by (simp add: Cons.IH)
qed

lemma cavity_init_in_range:
  assumes wf: "\<forall>i < SCULPT_vertex_count_get ss. \<forall>ni \<in> set (SCULPT_vertex_neighbors ss i).
             ni < SCULPT_vertex_count_get ss"
    and nondeg: "\<forall>v < SCULPT_vertex_count_get ss.
        SCULPT_vertex_neighbors ss v \<noteq> [] \<longrightarrow> mean_edge_length ss v \<noteq> 0"
    and f: "factors_in_range (SCULPT_vertex_count_get ss) f"
  shows "factors_in_range (SCULPT_vertex_count_get ss)
           (snd (sculpt_cavity_automasking_init sd ss a f steps))"
proof -
  let ?n = "SCULPT_vertex_count_get ss"
  have ones: "factors_in_range ?n (replicate ?n (Some 1))"
    by (simp add: factors_in_range_nth in_unit_range_def)
  have c: "factors_in_range ?n (cavity_multiply a ss (replicate ?n (Some 1)))"
    by (rule cavity_multiply_in_range [OF ones nondeg])
  have b: "factors_in_range ?n (fst (cavity_blur ss steps
             (cavity_multiply a ss (replicate ?n (Some 1)), replicate ?n (Some 1))))"
    using cavity_blur_in_range [OF wf c ones] by (simp add: cavity_blur_def)
  have m: "factors_in_range ?n (fold (\<lambda>i f. f[i := fmul (f ! i) (g ! i)]) [0..<?n] f)"
    if "factors_in_range ?n g" for g
    using that
    by (intro factors_in_range_pointwise [OF f, of "\<lambda>i x. fmul x (g ! i)"] in_unit_range_fmul)
      (simp_all add: factors_in_range_nth)
  show ?thesis
    using f m [OF b] cavity_multiply_in_range [OF f nondeg]
    by (simp add: sculpt_cavity_automasking_init_def Let_def split_def)
qed

text \<open>Boundary.\<close>

lemma boundary_falloff_in_range:
  assumes "1 \<le> N" "0 \<le> d" "d \<le> N"
  shows "in_unit_range (boundary_falloff d N)"
proof -
  have "0 \<le> real_of_int d / real_of_int N" "real_of_int d / real_of_int N \<le> 1"
    using assms by simp_all
  then have "0 \<le> 1 - real_of_int d / real_of_int N" "1 - real_of_int d / real_of_int N \<le> 1"
    by simp_all
  then have "0 \<le> (1 - real_of_int d / real_of_int N)\<^sup>2" "(1 - real_of_int d / real_of_int N)\<^sup>2 \<le> 1"
    by (simp_all add: power_le_one)
  with assms(1) show ?thesis
    by (simp add: boundary_falloff_value in_unit_range_def)
qed

lemma boundary_init_in_range:
  assumes wf: "\<forall>i < SCULPT_vertex_count_get ss. \<forall>ni \<in> set (SCULPT_vertex_neighbors ss i).
             ni < SCULPT_vertex_count_get ss"
    and N: "1 \<le> N"
    and f: "factors_in_range (SCULPT_vertex_count_get ss) f"
  shows "factors_in_range (SCULPT_vertex_count_get ss)
           (snd (SCULPT_boundary_automasking_init ss mode N f))"
proof (cases "pmap ss")
  case False
  with f show ?thesis by (simp add: SCULPT_boundary_automasking_init_def)
next
  case True
  let ?n = "SCULPT_vertex_count_get ss"
  let ?ed = "boundary_edge_distance ss mode N"
  let ?g = "\<lambda>v. if ?ed ! v = EDGE_DISTANCE_INF then f ! v
                 else fmul (f ! v) (boundary_falloff (?ed ! v) N)"
  have "in_unit_range (?g v)" if v: "v < ?n" for v
  proof (cases "hop_distance ss (boundary_seed ss mode) (nat N) v")
    case None
    with v f show ?thesis
      by (simp add: boundary_edge_distance_eq [OF wf] factors_in_range_nth del: hop_distance.simps)
  next
    case (Some d)
    then have "d \<le> nat N" by (simp add: hop_distance_Some)
    with N have "in_unit_range (boundary_falloff (int d) N)"
      by (intro boundary_falloff_in_range) simp_all
    with Some v f show ?thesis
      by (simp add: boundary_edge_distance_eq [OF wf] factors_in_range_nth in_unit_range_fmul
          del: hop_distance.simps)
  qed
  then have "factors_in_range ?n (map ?g [0..<?n])"
    unfolding factors_in_range_map by blast
  moreover have "snd (SCULPT_boundary_automasking_init ss mode N f) = map ?g [0..<?n]"
    using True f
    by (simp add: SCULPT_boundary_automasking_init_def Let_def boundary_apply_eq
        factors_in_range_nth)
  ultimately show ?thesis by simp
qed


text \<open>The array that \<^verbatim>\<open>SCULPT_automasking_cache_init\<close> builds.\<close>

lemma cache_init_factor_in_range:
  assumes wf: "\<forall>i < SCULPT_vertex_count_get ss. \<forall>ni \<in> set (SCULPT_vertex_neighbors ss i).
             ni < SCULPT_vertex_count_get ss"
    and nondeg: "\<forall>v < SCULPT_vertex_count_get ss.
        SCULPT_vertex_neighbors ss v \<noteq> [] \<longrightarrow> mean_edge_length ss v \<noteq> 0"
    and steps: "1 \<le> automasking_boundary_edges_propagation_steps b"
    and init: "SCULPT_automasking_cache_init sd (Some b) ss = Inr (Some a)"
    and fa: "factor a = Some f"
  shows "factors_in_range (SCULPT_vertex_count_get ss) f"
proof -
  let ?n = "SCULPT_vertex_count_get ss"
  let ?N = "automasking_boundary_edges_propagation_steps b"
  let ?on = "SCULPT_is_automasking_mode_enabled sd (Some b)"
  let ?a0 = "\<lparr>settings = \<lparr>flags = sculpt_automasking_mode_effective_bits sd (Some b),
                initial_face_set = SCULPT_active_face_set_get ss,
                cavity_factor = automasking_cavity_factor b\<rparr>, factor = None\<rparr>"
  let ?T = "if ?on BRUSH_AUTOMASKING_TOPOLOGY
            then map_sum id snd (SCULPT_topology_automasking_init sd ss (replicate ?n (Some 1)))
            else Inr (replicate ?n (Some 1))"
  let ?F2 = "\<lambda>f. if ?on BRUSH_AUTOMASKING_FACE_SETS
                 then snd (sculpt_face_sets_automasking_init sd ss f) else f"
  let ?F3 = "\<lambda>f. if ?on BRUSH_AUTOMASKING_CAVITY
                 then snd (sculpt_cavity_automasking_init sd ss ?a0 f ?N) else f"
  let ?F4 = "\<lambda>f. if ?on BRUSH_AUTOMASKING_BOUNDARY_EDGES
                 then snd (SCULPT_boundary_automasking_init ss AUTOMASK_INIT_BOUNDARY_EDGES ?N f)
                 else f"
  let ?F5 = "\<lambda>f. if ?on BRUSH_AUTOMASKING_BOUNDARY_FACE_SETS
                 then snd (SCULPT_boundary_automasking_init ss AUTOMASK_INIT_BOUNDARY_FACE_SETS ?N f)
                 else f"
  from init fa obtain f1 where T: "?T = Inr f1" and f: "f = ?F5 (?F4 (?F3 (?F2 f1)))"
    by (auto simp: SCULPT_automasking_cache_init_def SCULPT_automasking_cache_settings_update_def
        Let_def split: if_splits sum.splits)
  have r0: "factors_in_range ?n (replicate ?n (Some 1))"
    by (simp add: factors_in_range_nth in_unit_range_def)
  have r1: "factors_in_range ?n f1"
  proof (cases "?on BRUSH_AUTOMASKING_TOPOLOGY")
    case True
    with T obtain r where "SCULPT_topology_automasking_init sd ss (replicate ?n (Some 1)) = Inr (r, f1)"
      by (cases "SCULPT_topology_automasking_init sd ss (replicate ?n (Some 1))") auto
    with r0 show ?thesis by (rule topology_init_in_range)
  next
    case False
    with T r0 show ?thesis by simp
  qed
  have r2: "factors_in_range ?n (?F2 f1)"
    using r1 face_sets_init_in_range [OF r1] by simp
  have r3: "factors_in_range ?n (?F3 (?F2 f1))"
    using r2 cavity_init_in_range [OF wf nondeg r2] by simp
  have r4: "factors_in_range ?n (?F4 (?F3 (?F2 f1)))"
    using r3 boundary_init_in_range [OF wf steps r3] by simp
  have r5: "factors_in_range ?n (?F5 (?F4 (?F3 (?F2 f1))))"
    using r4 boundary_init_in_range [OF wf steps r4] by simp
  with f show ?thesis by simp
qed

text \<open>
  The range invariant where the code keeps it: on a mesh whose neighbour lists name
  vertices of the mesh and in which no vertex with neighbours has a zero mean edge length,
  with at least one propagation step, every cache that \<^verbatim>\<open>SCULPT_automasking_cache_init\<close>
  returns (NULL, without and with a factor array) answers every vertex of the mesh with a
  factor in [0.0, 1.0].
\<close>

lemma factor_get_in_range:
  assumes wf: "\<forall>i < SCULPT_vertex_count_get ss. \<forall>ni \<in> set (SCULPT_vertex_neighbors ss i).
             ni < SCULPT_vertex_count_get ss"
    and nondeg: "\<forall>v < SCULPT_vertex_count_get ss.
        SCULPT_vertex_neighbors ss v \<noteq> [] \<longrightarrow> mean_edge_length ss v \<noteq> 0"
    and steps: "\<forall>b. brush = Some b \<longrightarrow> 1 \<le> automasking_boundary_edges_propagation_steps b"
    and init: "SCULPT_automasking_cache_init sd brush ss = Inr automasking"
    and v: "v < SCULPT_vertex_count_get ss"
  shows "in_unit_range (SCULPT_automasking_factor_get automasking ss v)"
proof (cases automasking)
  case None
  then show ?thesis by (simp add: SCULPT_automasking_factor_get_def in_unit_range_def)
next
  case (Some a)
  from init Some obtain b where b: "brush = Some b"
    by (cases brush) (auto simp: SCULPT_automasking_cache_init_def Let_def
        SCULPT_automasking_cache_settings_update_def split: if_splits)
  show ?thesis
  proof (cases "factor a")
    case (Some f)
    from steps b have "1 \<le> automasking_boundary_edges_propagation_steps b" by simp
    from cache_init_factor_in_range [OF wf nondeg this _ Some] init b \<open>automasking = Some a\<close>
    have "factors_in_range (SCULPT_vertex_count_get ss) f" by simp
    with v Some \<open>automasking = Some a\<close> show ?thesis
      by (simp add: SCULPT_automasking_factor_get_def factors_in_range_nth)
  next
    case None
    from nondeg v obtain c where "SCULPT_calc_cavity ss v = Some c"
      using calc_cavity_number [of ss v] by auto
    then have "in_unit_range (sculpt_automasking_cavity_factor a ss v)"
      by (rule cavity_factor_in_range)
    with None \<open>automasking = Some a\<close> show ?thesis
      by (simp add: SCULPT_automasking_factor_get_def in_unit_range_def)
  qed
qed

text \<open>
  C1 says that the query returns a value in [0.0, 1.0] for every cache, every vertex of
  the mesh and every valid setting. \<^verbatim>\<open>sculpt_automasking_cavity_factor\<close> clamps to that
  range and \<^verbatim>\<open>SCULPT_calc_cavity\<close> guards the division for a vertex with no neighbour, but
  not for a vertex whose neighbours all lie on it: there \<^verbatim>\<open>elen\<close> is 0, the cavity is
  \<^verbatim>\<open>0.0f / 0.0f\<close>, not a number, \<^verbatim>\<open>CLAMP\<close> lets it through and the query returns it. On two
  coincident vertices joined by an edge, with Cavity enabled and one propagation step:
\<close>

theorem factor_get_nan_on_zero_length_edge:
  "SCULPT_automasking_cache_init (example_sculpt 16 None) (Some (example_brush 0 1)) mesh_doubled
     = Inr (Some (example_cache 16 3)) \<and>
   SCULPT_calc_cavity mesh_doubled 0 = None \<and>
   SCULPT_automasking_factor_get (Some (example_cache 16 3)) mesh_doubled 0 = None \<and>
   \<not> in_unit_range (SCULPT_automasking_factor_get (Some (example_cache 16 3)) mesh_doubled 0)"
proof -
  have init: "SCULPT_automasking_cache_init (example_sculpt 16 None) (Some (example_brush 0 1))
      mesh_doubled = Inr (Some (example_cache 16 3))"
    by (simp add: SCULPT_automasking_cache_init_def enabled_defs
        SCULPT_automasking_cache_settings_update_def example_defs mesh_doubled_def flag_simps)
  have cav: "SCULPT_calc_cavity mesh_doubled 0 = None"
    by (simp add: SCULPT_calc_cavity_def mesh_doubled_def zero_v3_def len_v3v3_def fdiv_def)
  have get: "SCULPT_automasking_factor_get (Some (example_cache 16 3)) mesh_doubled 0 = None"
    by (simp add: SCULPT_automasking_factor_get_def sculpt_automasking_cavity_factor_def cav
        example_cache_def flag_simps fabsf_def signf_def fmul_def fadd_def fsub_def CLAMP_def)
  from init cav get show ?thesis by (simp add: in_unit_range_def)
qed

end
